theory Spec2Isabelle
  imports Main "HOL-Library.Word" "HOL-Library.Product_Lexorder"
begin

section \<open>Errors\<close>

text \<open>
  The registered errors the keepers return (\<open>types.Err...\<close> of the module and
  \<open>cosmoserrors.Err...\<close> of the SDK). A Go error value is a registered error together with
  the text it was wrapped with; \<open>Wrap\<close> keeps the registered error and puts the new text
  in front, as \<open>sdkerrors.Wrap\<close> does. Format arguments other than the denom are left out
  of the texts.
\<close>

datatype code =
    ErrInvalidInput
  | ErrInvalidDenom
  | ErrTokenNotFound
  | ErrFeatureDisabled
  | ErrGloballyFrozen
  | ErrWhitelistedLimitExceeded
  | ErrInvalidState
  | ErrUnauthorized
  | ErrInsufficientFunds
  | ErrInvalidCoins
  | ErrInvalidRequest
  | ErrInstantiate
  | ErrOrderNotFound
  | Panic

type_synonym error = "code \<times> string"

definition Wrap :: "error \<Rightarrow> string \<Rightarrow> error" where
  "Wrap err msg = (fst err, msg @ '': '' @ snd err)"

definition IsOf :: "error \<Rightarrow> code list \<Rightarrow> bool" where
  "IsOf err cs = (fst err \<in> set cs)"

section \<open>Fungible-token data model\<close>

text \<open>
  An \<open>sdk.AccAddress\<close> is represented by its \<open>String()\<close> rendering, which is what a
  definition stores in \<open>Admin\<close> and \<open>Issuer\<close> and what \<open>IsAdmin\<close> compares. An
  \<open>sdkmath.Int\<close> is an unbounded \<open>int\<close>; a \<open>LegacyDec\<close> is the unbounded integer that
  holds it scaled by \<open>10^18\<close>, so that \<open>LegacyZeroDec\<close> is \<open>0\<close>.
\<close>

type_synonym AccAddress = string
type_synonym LegacyDec = int
type_synonym bytes = "8 word list"

datatype Coin = NewCoin (CoinDenom: string) (CoinAmount: int)

datatype Feature =
    Feature_minting
  | Feature_burning
  | Feature_freezing
  | Feature_whitelisting
  | Feature_ibc
  | Feature_block_smart_contracts
  | Feature_clawback
  | Feature_extension

record Definition =
  Denom :: string
  Issuer :: string
  Features :: "Feature list"
  BurnRate :: LegacyDec
  SendCommissionRate :: LegacyDec
  Version :: "32 word"
  URI :: string
  URIHash :: string
  Admin :: string
  ExtensionCWAddress :: string

text \<open>
  Modelled from the spec: the methods of \<open>types.Definition\<close> (package
  \<open>x/asset/ft/types\<close> is not among the sources). \<open>is_feature_enabled\<close> is membership in
  the feature list, \<open>is_admin\<close> compares the stored admin with the actor, and
  \<open>has_admin_privileges\<close> is "true iff admin set and equal".
\<close>

definition IsFeatureEnabled :: "Definition \<Rightarrow> Feature \<Rightarrow> bool" where
  "IsFeatureEnabled def feature = (feature \<in> set (Features def))"

definition IsAdmin :: "Definition \<Rightarrow> AccAddress \<Rightarrow> bool" where
  "IsAdmin def addr = (Admin def = addr)"

definition HasAdminPrivileges :: "Definition \<Rightarrow> AccAddress \<Rightarrow> bool" where
  "HasAdminPrivileges def addr = (Admin def \<noteq> [] \<and> Admin def = addr)"

text \<open>
  Modelled from the spec: the transfer purpose attached to the execution context
  (package \<open>x/wibctransfer/types\<close> is not among the sources): one tag out of none,
  ibc-out, ibc-in, ack and timeout. The two smart-contract marks of \<open>x/wasm/types\<close> are
  context values as well: whether the message was triggered by a smart contract, and the
  address marked as the receiving smart contract, if any.
\<close>

datatype Purpose = PurposeNone | PurposeOut | PurposeIn | PurposeAck | PurposeTimeout

record Context =
  purpose :: Purpose
  triggeredBySmartContract :: bool
  smartContractRecipient :: "AccAddress option"
  appHash :: bytes

definition IsPurposeOut :: "Context \<Rightarrow> bool" where
  "IsPurposeOut ctx = (purpose ctx = PurposeOut)"

definition IsPurposeIn :: "Context \<Rightarrow> bool" where
  "IsPurposeIn ctx = (purpose ctx = PurposeIn)"

definition IsPurposeAck :: "Context \<Rightarrow> bool" where
  "IsPurposeAck ctx = (purpose ctx = PurposeAck)"

definition IsPurposeTimeout :: "Context \<Rightarrow> bool" where
  "IsPurposeTimeout ctx = (purpose ctx = PurposeTimeout)"

definition IsTriggeredBySmartContract :: "Context \<Rightarrow> bool" where
  "IsTriggeredBySmartContract ctx = triggeredBySmartContract ctx"

definition IsReceivingSmartContract :: "Context \<Rightarrow> AccAddress \<Rightarrow> bool" where
  "IsReceivingSmartContract ctx addr = (smartContractRecipient ctx = Some addr)"

definition WithSmartContractRecipient :: "Context \<Rightarrow> AccAddress \<Rightarrow> Context" where
  "WithSmartContractRecipient ctx addr = ctx\<lparr>smartContractRecipient := Some addr\<rparr>"

section \<open>Keeper state\<close>

text \<open>
  Everything the keeper reads and writes through \<open>ctx\<close>: its own key-value store (token
  definitions under \<open>CreateTokenKey(issuer, subunit)\<close>, symbols under
  \<open>CreateSymbolKey(issuer, symbol)\<close>, the global-freeze keys, the frozen and whitelisted
  balance stores, the DEX counters, the module parameters), and what the bank, staking and
  wasm keepers answer (balances, vesting-locked coins, denom metadata, the bond denom, the
  set of contract addresses). A balance store answers a zero coin for a missing key, so
  the balance stores are total functions. Reads and writes of the store do not fail.
\<close>

record ExtensionSettings =
  CodeId :: "64 word"
  Label :: string
  Funds :: "Coin list"
  IssuanceMsg :: bytes

typedecl DEXSettings

record Metadata =
  mdDescription :: string
  mdDenomUnits :: "(string \<times> 32 word) list"
  mdBase :: string
  mdDisplay :: string
  mdName :: string
  mdSymbol :: string
  mdURI :: string
  mdURIHash :: string

record IssueSettings =
  sIssuer :: AccAddress
  sSymbol :: string
  sSubunit :: string
  sPrecision :: "32 word"
  sDescription :: string
  sInitialAmount :: int
  sFeatures :: "Feature list"
  sBurnRate :: LegacyDec
  sSendCommissionRate :: LegacyDec
  sURI :: string
  sURIHash :: string
  sExtensionSettings :: "ExtensionSettings option"
  sDEXSettings :: "DEXSettings option"

datatype Event =
    EventIssued string IssueSettings
  | EventAdminCleared string string

record State =
  tokens :: "(AccAddress \<times> string) \<rightharpoonup> Definition"
  symbols :: "(AccAddress \<times> string) \<rightharpoonup> bytes"
  globalFreeze :: "string \<rightharpoonup> bytes"
  frozenBalances :: "AccAddress \<Rightarrow> string \<Rightarrow> int"
  whitelistedBalances :: "AccAddress \<Rightarrow> string \<Rightarrow> int"
  dexLocked :: "AccAddress \<Rightarrow> string \<Rightarrow> int"
  dexExpectedToReceive :: "AccAddress \<Rightarrow> string \<Rightarrow> int"
  dexSettings :: "string \<rightharpoonup> DEXSettings"
  issueFee :: Coin
  bankBalances :: "AccAddress \<Rightarrow> string \<Rightarrow> int"
  bankLockedCoins :: "AccAddress \<Rightarrow> string \<Rightarrow> int"
  bankSupply :: "string \<Rightarrow> int"
  denomMetaData :: "string \<rightharpoonup> Metadata"
  bondDenom :: string
  smartContracts :: "AccAddress set"
  events :: "Event list"

text \<open>
  The functions, constants and external calls that \<open>keeper.go\<close> uses and that are not
  among the sources are parameters of the model, collected in one record: the constant
  \<open>MaxMintableAmount\<close>, the current token version, the denom and symbol helpers, the validators of
  \<open>IssueVersioned\<close>, the set of admin-only features of \<open>CheckFeatureAllowed\<close>, the
  validation of bank metadata and the instantiation of the extension contract.
  \<open>DeconstructDenom\<close> answers \<open>None\<close> where the Go function returns its error, which is
  \<open>ErrInvalidDenom\<close> (the error \<open>getDefinitionOrNil\<close> tests for beside
  \<open>ErrTokenNotFound\<close>).

  Modelled from the spec: a validator of the issue settings that rejects does so with
  \<open>InvalidInput\<close> (malformed symbol or subunit, unknown or duplicate features, values out
  of range), so the validators are predicates.
\<close>

record Types =
  MaxMintableAmount :: int
  CurrentTokenVersion :: "32 word"
  DeconstructDenom :: "string \<Rightarrow> (string \<times> AccAddress) option"
  BuildDenom :: "string \<Rightarrow> AccAddress \<Rightarrow> string"
  NormalizeSymbolForKey :: "string \<Rightarrow> string"
  ValidateSubunit :: "string \<Rightarrow> bool"
  ValidatePrecision :: "32 word \<Rightarrow> bool"
  ValidateFeatures :: "Feature list \<Rightarrow> bool"
  ValidateBurnRate :: "LegacyDec \<Rightarrow> bool"
  ValidateSendCommissionRate :: "LegacyDec \<Rightarrow> bool"
  ValidateSymbol :: "string \<Rightarrow> bool"
  ValidateDEXSettings :: "DEXSettings \<Rightarrow> error option"
  ValidateDEXSettingsAccess :: "DEXSettings \<Rightarrow> Definition \<Rightarrow> error option"
  AdminOnly :: "Feature \<Rightarrow> bool"
  ValidateMetadata :: "Metadata \<Rightarrow> bool"
  MarshalInstantiateMsg :: "string \<Rightarrow> bytes \<Rightarrow> bytes option"
  Instantiate2 :: "64 word \<Rightarrow> AccAddress \<Rightarrow> bytes \<Rightarrow> string \<Rightarrow> Coin list \<Rightarrow> bytes
                    \<Rightarrow> error + AccAddress"

definition StoreTrue :: bytes where
  "StoreTrue = [1]"

text \<open>
  Modelled from the spec: \<open>check_feature_allowed\<close> "returns error FeatureDisabled if
  feature not enabled; Unauthorized if feature is admin-only and actor is not admin".
\<close>

definition CheckFeatureAllowed :: "Types \<Rightarrow> Definition \<Rightarrow> AccAddress \<Rightarrow> Feature \<Rightarrow> error option" where
  "CheckFeatureAllowed T def addr feature =
     (if \<not> IsFeatureEnabled def feature then Some (ErrFeatureDisabled, ''feature is disabled'')
      else if AdminOnly T feature \<and> \<not> IsAdmin def addr
        then Some (ErrUnauthorized, ''address is unauthorized to perform feature related operations'')
      else None)"

subsection \<open>Reads\<close>

definition GetBalance :: "State \<Rightarrow> AccAddress \<Rightarrow> string \<Rightarrow> Coin" where
  "GetBalance s addr denom = NewCoin denom (bankBalances s addr denom)"

definition LockedCoinsAmountOf :: "State \<Rightarrow> AccAddress \<Rightarrow> string \<Rightarrow> int" where
  "LockedCoinsAmountOf s addr denom = bankLockedCoins s addr denom"

definition GetDEXLockedBalance :: "State \<Rightarrow> AccAddress \<Rightarrow> string \<Rightarrow> Coin" where
  "GetDEXLockedBalance s addr denom = NewCoin denom (dexLocked s addr denom)"

definition GetDEXExpectedToReceivedBalance :: "State \<Rightarrow> AccAddress \<Rightarrow> string \<Rightarrow> Coin" where
  "GetDEXExpectedToReceivedBalance s addr denom = NewCoin denom (dexExpectedToReceive s addr denom)"

definition GetWhitelistedBalance :: "State \<Rightarrow> AccAddress \<Rightarrow> string \<Rightarrow> Coin" where
  "GetWhitelistedBalance s addr denom = NewCoin denom (whitelistedBalances s addr denom)"

definition frozenStoreBalance :: "State \<Rightarrow> AccAddress \<Rightarrow> string \<Rightarrow> Coin" where
  "frozenStoreBalance s addr denom = NewCoin denom (frozenBalances s addr denom)"

definition GetDefinition :: "Types \<Rightarrow> State \<Rightarrow> string \<Rightarrow> error + Definition" where
  "GetDefinition T s denom =
     (case DeconstructDenom T denom of
        None \<Rightarrow> Inl (ErrInvalidDenom, ''invalid denom'')
      | Some (subunit, issuer) \<Rightarrow>
          (case tokens s (issuer, subunit) of
             None \<Rightarrow> Inl (ErrTokenNotFound, ''denom: '' @ denom)
           | Some definition \<Rightarrow> Inr definition))"

definition getDefinitionOrNil :: "Types \<Rightarrow> State \<Rightarrow> string \<Rightarrow> error + Definition option" where
  "getDefinitionOrNil T s denom =
     (case GetDefinition T s denom of
        Inl err \<Rightarrow>
          (if IsOf err [ErrInvalidDenom, ErrTokenNotFound] then Inr None
           else Inl (ErrInvalidState, ''failed to get definton for denom: '' @ denom))
      | Inr def \<Rightarrow> Inr (Some def))"

definition isGloballyFrozen :: "State \<Rightarrow> string \<Rightarrow> bool" where
  "isGloballyFrozen s denom = (globalFreeze s denom = Some StoreTrue)"

definition GetFrozenBalance :: "Types \<Rightarrow> State \<Rightarrow> AccAddress \<Rightarrow> string \<Rightarrow> error + Coin" where
  "GetFrozenBalance T s addr denom =
     (let isFrozen = isGloballyFrozen s denom in
      case getDefinitionOrNil T s denom of
        Inl err \<Rightarrow> Inl (Wrap err (''not able to get token info for denom:'' @ denom))
      | Inr def \<Rightarrow>
          (if def \<noteq> None \<and> HasAdminPrivileges (the def) addr then Inr (NewCoin denom 0)
           else if isFrozen then Inr (GetBalance s addr denom)
           else Inr (frozenStoreBalance s addr denom)))"

subsection \<open>Transfer validator\<close>

text \<open>
  Modelled from the spec: \<open>validateCoinIsNotLockedByDEXAndBank\<close> (its file is not among
  the sources) is rule 5 of \<open>validate_spendable\<close>: check
  \<open>amount \<le> bank[from][denom] - dex_locked[from][denom] - bank_locked[from][denom]\<close>
  and fail with \<open>InsufficientFunds\<close> otherwise.
\<close>

definition validateCoinIsNotLockedByDEXAndBank :: "State \<Rightarrow> AccAddress \<Rightarrow> Coin \<Rightarrow> error option" where
  "validateCoinIsNotLockedByDEXAndBank s addr coin =
     (let availableAmt = CoinAmount (GetBalance s addr (CoinDenom coin))
                         - CoinAmount (GetDEXLockedBalance s addr (CoinDenom coin))
                         - LockedCoinsAmountOf s addr (CoinDenom coin)
      in if availableAmt < CoinAmount coin
         then Some (ErrInsufficientFunds, ''coin is not available, locked by DEX or bank'')
         else None)"

definition validateCoinSpendable ::
    "Types \<Rightarrow> Context \<Rightarrow> State \<Rightarrow> AccAddress \<Rightarrow> Definition \<Rightarrow> int \<Rightarrow> error option" where
  "validateCoinSpendable T ctx s addr def amount =
     (if IsPurposeAck ctx then None
      else if IsPurposeTimeout ctx then None
      else if IsFeatureEnabled def Feature_freezing
              \<and> isGloballyFrozen s (Denom def) \<and> \<not> HasAdminPrivileges def addr
        then Some (ErrGloballyFrozen, Denom def @ '' is globally frozen'')
      else if IsPurposeIn ctx then None
      else if IsFeatureEnabled def Feature_block_smart_contracts
              \<and> \<not> HasAdminPrivileges def addr \<and> IsTriggeredBySmartContract ctx
        then Some (ErrUnauthorized, ''transfers made by smart contracts are disabled for '' @ Denom def)
      else
        (case validateCoinIsNotLockedByDEXAndBank s addr (NewCoin (Denom def) amount) of
           Some err \<Rightarrow> Some err
         | None \<Rightarrow>
            (if IsFeatureEnabled def Feature_freezing \<and> \<not> HasAdminPrivileges def addr then
               (case GetFrozenBalance T s addr (Denom def) of
                  Inl err \<Rightarrow> Some err
                | Inr frozenBalance \<Rightarrow>
                    (let frozenAmt = CoinAmount frozenBalance;
                         balance = GetBalance s addr (Denom def);
                         notFrozenAmt = CoinAmount balance - frozenAmt
                     in if notFrozenAmt < amount
                        then Some (ErrInsufficientFunds, ''amount is not available'')
                        else None))
             else None)))"

definition validateWhitelistedBalance :: "State \<Rightarrow> AccAddress \<Rightarrow> Coin \<Rightarrow> error option" where
  "validateWhitelistedBalance s addr coin =
     (let balance = GetBalance s addr (CoinDenom coin);
          whitelistedBalance = GetWhitelistedBalance s addr (CoinDenom coin);
          dexExpectedToReceiveBalance = GetDEXExpectedToReceivedBalance s addr (CoinDenom coin);
          availableToReceiveAmount = CoinAmount whitelistedBalance - CoinAmount balance
                                     - CoinAmount dexExpectedToReceiveBalance
      in if availableToReceiveAmount < CoinAmount coin
         then Some (ErrWhitelistedLimitExceeded, ''balance whitelisted is not enough to receive'')
         else None)"

definition validateCoinReceivable ::
    "Context \<Rightarrow> State \<Rightarrow> AccAddress \<Rightarrow> Definition \<Rightarrow> int \<Rightarrow> error option" where
  "validateCoinReceivable ctx s addr def amount =
     (if IsPurposeOut ctx then
        (if \<not> IsFeatureEnabled def Feature_ibc
         then Some (ErrUnauthorized, ''ibc transfers are disabled for '' @ Denom def)
         else None)
      else if IsPurposeAck ctx then None
      else if IsPurposeTimeout ctx then None
      else
        (case (if IsFeatureEnabled def Feature_whitelisting \<and> \<not> HasAdminPrivileges def addr
               then validateWhitelistedBalance s addr (NewCoin (Denom def) amount)
               else None) of
           Some err \<Rightarrow> Some err
         | None \<Rightarrow>
            (if IsFeatureEnabled def Feature_block_smart_contracts
                \<and> \<not> HasAdminPrivileges def addr \<and> IsReceivingSmartContract ctx addr
             then Some (ErrUnauthorized, ''transfers to smart contracts are disabled for '' @ Denom def)
             else None)))"

subsection \<open>Spendable balance\<close>

definition GetSpendableBalance :: "Types \<Rightarrow> State \<Rightarrow> AccAddress \<Rightarrow> string \<Rightarrow> error + Coin" where
  "GetSpendableBalance T s addr denom =
     (let balance = GetBalance s addr denom in
      if CoinAmount balance = 0 then Inr balance
      else
        (let notLockedAmt = CoinAmount balance
                            - CoinAmount (GetDEXLockedBalance s addr denom)
                            - LockedCoinsAmountOf s addr denom
         in if notLockedAmt < 0 then Inr (NewCoin denom 0)
            else
              (case getDefinitionOrNil T s denom of
                 Inl err \<Rightarrow> Inl err
               | Inr def \<Rightarrow>
                   (if def \<noteq> None \<and> IsFeatureEnabled (the def) Feature_freezing then
                      (case GetFrozenBalance T s addr denom of
                         Inl err \<Rightarrow> Inl err
                       | Inr frozenBalance \<Rightarrow>
                           (let notFrozenAmt = CoinAmount balance - CoinAmount frozenBalance
                            in if notFrozenAmt < 0 then Inr (NewCoin denom 0)
                               else Inr (NewCoin denom (min notLockedAmt notFrozenAmt))))
                    else Inr (NewCoin denom notLockedAmt)))))"

subsection \<open>Bank keeper\<close>

text \<open>
  The bank keeper is an external collaborator; of it the model keeps the balances and the
  supply. Minting credits the module account and the supply, burning debits both, and a
  send moves an amount if the sender holds it and fails with \<open>ErrInsufficientFunds\<close>
  otherwise.
\<close>

definition ModuleName :: AccAddress where
  "ModuleName = ''assetft''"

definition addBalance :: "State \<Rightarrow> AccAddress \<Rightarrow> Coin \<Rightarrow> State" where
  "addBalance s addr coin =
     s\<lparr>bankBalances := (bankBalances s)
          (addr := (bankBalances s addr)(CoinDenom coin := bankBalances s addr (CoinDenom coin) + CoinAmount coin))\<rparr>"

definition MintCoins :: "State \<Rightarrow> AccAddress \<Rightarrow> Coin \<Rightarrow> State" where
  "MintCoins s moduleName coin =
     (addBalance s moduleName coin)
       \<lparr>bankSupply := (bankSupply s)(CoinDenom coin := bankSupply s (CoinDenom coin) + CoinAmount coin)\<rparr>"

definition SendCoins :: "State \<Rightarrow> AccAddress \<Rightarrow> AccAddress \<Rightarrow> Coin \<Rightarrow> error option \<times> State" where
  "SendCoins s fromAddr toAddr coin =
     (if bankBalances s fromAddr (CoinDenom coin) < CoinAmount coin
      then (Some (ErrInsufficientFunds, ''insufficient funds''), s)
      else (None, addBalance (addBalance s fromAddr (NewCoin (CoinDenom coin) (- CoinAmount coin))) toAddr coin))"

definition BurnCoins :: "State \<Rightarrow> AccAddress \<Rightarrow> Coin \<Rightarrow> error option \<times> State" where
  "BurnCoins s moduleName coin =
     (if bankBalances s moduleName (CoinDenom coin) < CoinAmount coin
      then (Some (ErrInsufficientFunds, ''insufficient funds''), s)
      else (None, (addBalance s moduleName (NewCoin (CoinDenom coin) (- CoinAmount coin)))
                    \<lparr>bankSupply := (bankSupply s)(CoinDenom coin := bankSupply s (CoinDenom coin) - CoinAmount coin)\<rparr>))"

definition IsSmartContract :: "State \<Rightarrow> AccAddress \<Rightarrow> bool" where
  "IsSmartContract s addr = (addr \<in> smartContracts s)"

subsection \<open>Global freeze\<close>

definition SetGlobalFreeze :: "State \<Rightarrow> string \<Rightarrow> bool \<Rightarrow> State" where
  "SetGlobalFreeze s denom frozen =
     (if frozen then s\<lparr>globalFreeze := (globalFreeze s)(denom \<mapsto> StoreTrue)\<rparr>
      else s\<lparr>globalFreeze := (globalFreeze s)(denom := None)\<rparr>)"

definition GloballyFreeze :: "Types \<Rightarrow> State \<Rightarrow> AccAddress \<Rightarrow> string \<Rightarrow> error option \<times> State" where
  "GloballyFreeze T s sender denom =
     (case GetDefinition T s denom of
        Inl err \<Rightarrow> (Some (Wrap err (''not able to get token info for denom:'' @ denom)), s)
      | Inr def \<Rightarrow>
          (case CheckFeatureAllowed T def sender Feature_freezing of
             Some err \<Rightarrow> (Some err, s)
           | None \<Rightarrow> (None, SetGlobalFreeze s denom True)))"

definition GloballyUnfreeze :: "Types \<Rightarrow> State \<Rightarrow> AccAddress \<Rightarrow> string \<Rightarrow> error option \<times> State" where
  "GloballyUnfreeze T s sender denom =
     (case GetDefinition T s denom of
        Inl err \<Rightarrow> (Some (Wrap err (''not able to get token info for denom:'' @ denom)), s)
      | Inr def \<Rightarrow>
          (case CheckFeatureAllowed T def sender Feature_freezing of
             Some err \<Rightarrow> (Some err, s)
           | None \<Rightarrow> (None, SetGlobalFreeze s denom False)))"

subsection \<open>Administration\<close>

definition SetDefinition :: "State \<Rightarrow> AccAddress \<Rightarrow> string \<Rightarrow> Definition \<Rightarrow> State" where
  "SetDefinition s issuer subunit definition = s\<lparr>tokens := (tokens s)((issuer, subunit) \<mapsto> definition)\<rparr>"

definition EmitTypedEvent :: "State \<Rightarrow> Event \<Rightarrow> State" where
  "EmitTypedEvent s ev = s\<lparr>events := events s @ [ev]\<rparr>"

definition ClearAdmin :: "Types \<Rightarrow> State \<Rightarrow> AccAddress \<Rightarrow> string \<Rightarrow> error option \<times> State" where
  "ClearAdmin T s sender denom =
     (case GetDefinition T s denom of
        Inl err \<Rightarrow> (Some (Wrap err (''not able to get token info for denom:'' @ denom)), s)
      | Inr def \<Rightarrow>
          (if \<not> IsAdmin def sender
           then (Some (ErrUnauthorized, ''only admin can remove administration of an account''), s)
           else
             (let previousAdmin = Admin def in
              case DeconstructDenom T denom of
                None \<Rightarrow> (Some (ErrInvalidDenom, ''invalid denom''), s)
              | Some (subunit, issuer) \<Rightarrow>
                  (let def1 = def\<lparr>Admin := []\<rparr>;
                       def2 = (if \<not> IsFeatureEnabled def1 Feature_extension
                               then def1\<lparr>SendCommissionRate := 0\<rparr> else def1);
                       s1 = SetDefinition s issuer subunit def2
                   in (None, EmitTypedEvent s1 (EventAdminCleared denom previousAdmin))))))"

subsection \<open>Minting and issuing\<close>

definition mintIfReceivable ::
    "Context \<Rightarrow> State \<Rightarrow> Definition \<Rightarrow> int \<Rightarrow> AccAddress \<Rightarrow> error option \<times> State" where
  "mintIfReceivable ctx s def amount recipient =
     (if \<not> 0 < amount then (None, s)
      else
        (let ctx1 = (if IsSmartContract s recipient then WithSmartContractRecipient ctx recipient else ctx) in
         case validateCoinReceivable ctx1 s recipient def amount of
           Some err \<Rightarrow> (Some (Wrap err ''coins are not receivable''), s)
         | None \<Rightarrow>
             (let coinsToMint = NewCoin (Denom def) amount;
                  s1 = MintCoins s ModuleName coinsToMint
              in case SendCoins s1 ModuleName recipient coinsToMint of
                   (Some err, s2) \<Rightarrow> (Some (Wrap err ''can't send minted coins from module to account''), s2)
                 | (None, s2) \<Rightarrow> (None, s2))))"

definition Mint :: "Types \<Rightarrow> Context \<Rightarrow> State \<Rightarrow> AccAddress \<Rightarrow> AccAddress \<Rightarrow> Coin \<Rightarrow> error option \<times> State" where
  "Mint T ctx s sender recipient coin =
     (if CoinAmount coin > MaxMintableAmount T
      then (Some (ErrInvalidInput, ''minting amount is greater than maximum allowed''), s)
      else
        (case GetDefinition T s (CoinDenom coin) of
           Inl err \<Rightarrow> (Some (Wrap err (''not able to get token info for denom:'' @ CoinDenom coin)), s)
         | Inr def \<Rightarrow>
             (case CheckFeatureAllowed T def sender Feature_minting of
                Some err \<Rightarrow> (Some err, s)
              | None \<Rightarrow> mintIfReceivable ctx s def (CoinAmount coin) recipient)))"

definition burn :: "State \<Rightarrow> AccAddress \<Rightarrow> Coin \<Rightarrow> error option \<times> State" where
  "burn s account coinsToBurn =
     (case SendCoins s account ModuleName coinsToBurn of
        (Some err, s1) \<Rightarrow> (Some (Wrap err ''can't send coins from account to module''), s1)
      | (None, s1) \<Rightarrow>
          (case BurnCoins s1 ModuleName coinsToBurn of
             (Some err, s2) \<Rightarrow> (Some (Wrap err ''can't burn for the module''), s2)
           | (None, s2) \<Rightarrow> (None, s2)))"

definition checkIssueFeeIsLimitedToCore :: "State \<Rightarrow> Coin \<Rightarrow> error option" where
  "checkIssueFeeIsLimitedToCore s fee =
     (if CoinDenom fee \<noteq> bondDenom s
      then Some (ErrInvalidCoins, ''not able to burn for issue fee, only the bond denom is accepted'')
      else None)"

definition burnIssueFee :: "State \<Rightarrow> IssueSettings \<Rightarrow> Coin \<Rightarrow> error option \<times> State" where
  "burnIssueFee s settings fee =
     (case checkIssueFeeIsLimitedToCore s fee of
        Some err \<Rightarrow> (Some err, s)
      | None \<Rightarrow>
          (case validateCoinIsNotLockedByDEXAndBank s (sIssuer settings) fee of
             Some err \<Rightarrow> (Some (Wrap err ''out of funds to pay for issue fee''), s)
           | None \<Rightarrow> burn s (sIssuer settings) fee))"

definition isSymbolDuplicated :: "State \<Rightarrow> string \<Rightarrow> AccAddress \<Rightarrow> bool" where
  "isSymbolDuplicated s symbol issuer = (symbols s (issuer, symbol) \<noteq> None)"

definition SetSymbol :: "Types \<Rightarrow> State \<Rightarrow> string \<Rightarrow> AccAddress \<Rightarrow> error option \<times> State" where
  "SetSymbol T s symbol issuer =
     (let symbol1 = NormalizeSymbolForKey T symbol in
      if isSymbolDuplicated s symbol1 issuer
      then (Some (ErrInvalidInput, ''duplicate symbol '' @ symbol1), s)
      else (None, s\<lparr>symbols := (symbols s)((issuer, symbol1) \<mapsto> StoreTrue)\<rparr>))"

definition SetDenomMetadata ::
    "Types \<Rightarrow> State \<Rightarrow> string \<Rightarrow> string \<Rightarrow> string \<Rightarrow> string \<Rightarrow> string \<Rightarrow> 32 word \<Rightarrow> error option \<times> State" where
  "SetDenomMetadata T s denom symbol description uri uriHash precision =
     (let md0 = \<lparr>mdDescription = description,
                 mdDenomUnits = [(denom, 0), (symbol, precision)],
                 mdBase = denom, mdDisplay = symbol, mdName = symbol, mdSymbol = symbol,
                 mdURI = uri, mdURIHash = uriHash\<rparr>;
          md = (if precision = 0 then md0\<lparr>mdDenomUnits := [(denom, 0)], mdDisplay := denom\<rparr> else md0)
      in if \<not> ValidateMetadata T md
         then (Some (ErrInvalidInput, ''failed to validate denom metadata''), s)
         else (None, s\<lparr>denomMetaData := (denomMetaData s)(denom \<mapsto> md)\<rparr>))"

text \<open>
  The instantiation of the extension contract, the step of \<open>IssueVersioned\<close> under
  \<open>Feature_extension\<close>: it answers the definition with the contract address filled in.
  The wasm keeper's own bookkeeping is reduced to recording the new contract address.
\<close>

definition instantiateExtension ::
    "Types \<Rightarrow> Context \<Rightarrow> State \<Rightarrow> IssueSettings \<Rightarrow> string \<Rightarrow> Definition \<Rightarrow> (error + Definition) \<times> State" where
  "instantiateExtension T ctx s settings denom definition =
     (case sExtensionSettings settings of
        None \<Rightarrow> (Inl (ErrInvalidInput, ''extension settings must be provided''), s)
      | Some ext \<Rightarrow>
          (let issuanceMsg = (if length (IssuanceMsg ext) = 0 then [123, 125] else IssuanceMsg ext) in
           case MarshalInstantiateMsg T denom issuanceMsg of
             None \<Rightarrow> (Inl (ErrInvalidInput, ''error marshalling ExtensionInstantiateMsg''), s)
           | Some instantiateMsgBytes \<Rightarrow>
               (case Instantiate2 T (CodeId ext) (sIssuer settings) instantiateMsgBytes
                       (Label ext) (Funds ext) (appHash ctx) of
                  Inl err \<Rightarrow> (Inl (Wrap err ''error instantiating cw contract''), s)
                | Inr contractAddress \<Rightarrow>
                    (Inr (definition\<lparr>ExtensionCWAddress := contractAddress\<rparr>),
                     s\<lparr>smartContracts := insert contractAddress (smartContracts s)\<rparr>))))"

text \<open>
  The tail of \<open>IssueVersioned\<close>, from \<open>SetDenomMetadata\<close> to the \<open>EventIssued\<close>
  event, which both branches of the extension step run with the definition they built.
  \<open>SetDEXSettings\<close> (its file is not among the sources) is the write of the settings
  under the denom.
\<close>

definition SetDEXSettings :: "State \<Rightarrow> string \<Rightarrow> DEXSettings \<Rightarrow> State" where
  "SetDEXSettings s denom settings = s\<lparr>dexSettings := (dexSettings s)(denom \<mapsto> settings)\<rparr>"

definition storeIssued ::
    "Types \<Rightarrow> State \<Rightarrow> IssueSettings \<Rightarrow> string \<Rightarrow> Definition \<Rightarrow> (error + string) \<times> State" where
  "storeIssued T s settings denom definition =
     (case SetDenomMetadata T s denom (sSymbol settings) (sDescription settings)
             (sURI settings) (sURIHash settings) (sPrecision settings) of
        (Some err, s1) \<Rightarrow> (Inl err, s1)
      | (None, s1) \<Rightarrow>
          (let s2 = SetDefinition s1 (sIssuer settings) (sSubunit settings) definition in
           case (case sDEXSettings settings of
                   None \<Rightarrow> (None, s2)
                 | Some dex \<Rightarrow>
                     (case ValidateDEXSettings T dex of
                        Some err \<Rightarrow> (Some err, s2)
                      | None \<Rightarrow>
                          (case ValidateDEXSettingsAccess T dex definition of
                             Some err \<Rightarrow> (Some err, s2)
                           | None \<Rightarrow> (None, SetDEXSettings s2 denom dex)))) of
             (Some err, s3) \<Rightarrow> (Inl err, s3)
           | (None, s3) \<Rightarrow> (Inr denom, EmitTypedEvent s3 (EventIssued denom settings))))"

definition IssueVersioned ::
    "Types \<Rightarrow> Context \<Rightarrow> State \<Rightarrow> IssueSettings \<Rightarrow> 32 word \<Rightarrow> (error + string) \<times> State" where
  "IssueVersioned T ctx s settings version =
     (if \<not> ValidateSubunit T (sSubunit settings)
        then (Inl (ErrInvalidInput, ''provided subunit: '' @ sSubunit settings), s)
      else if \<not> ValidatePrecision T (sPrecision settings)
        then (Inl (ErrInvalidInput, ''provided precision''), s)
      else if \<not> ValidateFeatures T (sFeatures settings)
        then (Inl (ErrInvalidInput, ''invalid features''), s)
      else if \<not> ValidateBurnRate T (sBurnRate settings)
        then (Inl (ErrInvalidInput, ''invalid burn rate''), s)
      else if \<not> ValidateSendCommissionRate T (sSendCommissionRate settings)
        then (Inl (ErrInvalidInput, ''invalid send commission rate''), s)
      else if sInitialAmount settings > MaxMintableAmount T
        then (Inl (ErrInvalidInput, ''initial amount is greater than maximum allowed''), s)
      else if \<not> ValidateSymbol T (sSymbol settings)
        then (Inl (ErrInvalidInput, ''provided symbol: '' @ sSymbol settings), s)
      else
        (let denom = BuildDenom T (sSubunit settings) (sIssuer settings) in
         if denomMetaData s denom \<noteq> None
         then (Inl (ErrInvalidInput, ''subunit already registered for the address''), s)
         else
           (case (if 0 < CoinAmount (issueFee s) then burnIssueFee s settings (issueFee s) else (None, s)) of
              (Some err, s1) \<Rightarrow> (Inl err, s1)
            | (None, s1) \<Rightarrow>
                (case SetSymbol T s1 (sSymbol settings) (sIssuer settings) of
                   (Some err, s2) \<Rightarrow> (Inl (Wrap err (''provided symbol: '' @ sSymbol settings)), s2)
                 | (None, s2) \<Rightarrow>
                     (let definition = \<lparr>Denom = denom, Issuer = sIssuer settings,
                                        Features = sFeatures settings, BurnRate = sBurnRate settings,
                                        SendCommissionRate = sSendCommissionRate settings,
                                        Version = version, URI = sURI settings,
                                        URIHash = sURIHash settings, Admin = sIssuer settings,
                                        ExtensionCWAddress = []\<rparr>
                      in case mintIfReceivable ctx s2 definition (sInitialAmount settings) (sIssuer settings) of
                           (Some err, s3) \<Rightarrow> (Inl err, s3)
                         | (None, s3) \<Rightarrow>
                             (if IsFeatureEnabled definition Feature_extension then
                                (case instantiateExtension T ctx s3 settings denom definition of
                                   (Inl err, s4) \<Rightarrow> (Inl err, s4)
                                 | (Inr definition1, s4) \<Rightarrow> storeIssued T s4 settings denom definition1)
                              else storeIssued T s3 settings denom definition))))))"

definition Issue :: "Types \<Rightarrow> Context \<Rightarrow> State \<Rightarrow> IssueSettings \<Rightarrow> (error + string) \<times> State" where
  "Issue T ctx s settings = IssueVersioned T ctx s settings (CurrentTokenVersion T)"

section \<open>Fee model\<close>

text \<open>
  The fee-model keeper stores the model parameters, the short and the long EMA of the block
  gas (both \<open>int64\<close>, read as \<open>0\<close> when never written) and the current minimum gas
  price, a \<open>DecCoin\<close> that \<open>GetMinGasPrice\<close> panics without. Of the model parameters
  only the three fields the keeper reads are named; the others live in the record's
  extension. \<open>types.CalculateEMA\<close> and the model's \<open>CalculateNextGasPrice\<close> are not
  among the sources and are parameters.
\<close>

type_synonym int64 = "64 word"
type_synonym uint32 = "32 word"
type_synonym DecCoin = "string \<times> LegacyDec"

record ModelParams =
  ShortEmaBlockLength :: uint32
  LongEmaBlockLength :: uint32
  MaxBlockGas :: int64

record FeeTypes =
  CalculateEMA :: "int64 \<Rightarrow> int64 \<Rightarrow> uint32 \<Rightarrow> int64"
  CalculateNextGasPrice :: "ModelParams \<Rightarrow> int64 \<Rightarrow> int64 \<Rightarrow> LegacyDec"

record FeeState =
  feeParams :: ModelParams
  shortEMAGas :: int64
  longEMAGas :: int64
  minGasPrice :: "DecCoin option"

definition LegacyMaxDec :: "LegacyDec \<Rightarrow> LegacyDec \<Rightarrow> LegacyDec" where
  "LegacyMaxDec d1 d2 = (if d1 < d2 then d2 else d1)"

definition LegacyMinDec :: "LegacyDec \<Rightarrow> LegacyDec \<Rightarrow> LegacyDec" where
  "LegacyMinDec d1 d2 = (if d1 > d2 then d2 else d1)"

text \<open>
  The loop variables of \<open>CalculateEdgeGasPriceAfterBlocks\<close>, in the order
  \<open>maxShortEMA\<close>, \<open>maxLongEMA\<close>, \<open>minShortEMA\<close>, \<open>minLongEMA\<close>,
  \<open>lowMinGasPrice\<close>, \<open>highMinGasPrice\<close>, and the body of \<open>for range after\<close>.
\<close>

type_synonym edge = "int64 \<times> int64 \<times> int64 \<times> int64 \<times> LegacyDec \<times> LegacyDec"

fun edgeStep :: "FeeTypes \<Rightarrow> ModelParams \<Rightarrow> edge \<Rightarrow> edge" where
  "edgeStep F P (maxShortEMA, maxLongEMA, minShortEMA, minLongEMA, lowMinGasPrice, highMinGasPrice) =
     (let maxShortEMA1 = CalculateEMA F maxShortEMA (MaxBlockGas P) (ShortEmaBlockLength P);
          maxLongEMA1 = CalculateEMA F maxLongEMA (MaxBlockGas P) (LongEmaBlockLength P);
          maxLoadMinGasPrice = CalculateNextGasPrice F P maxShortEMA1 maxLongEMA1;
          minShortEMA1 = CalculateEMA F minShortEMA 0 (ShortEmaBlockLength P);
          minLongEMA1 = CalculateEMA F minLongEMA 0 (LongEmaBlockLength P);
          minLoadMinGasPrice = CalculateNextGasPrice F P minShortEMA1 minLongEMA1;
          highMinGasPrice1 = LegacyMaxDec highMinGasPrice (LegacyMaxDec maxLoadMinGasPrice minLoadMinGasPrice);
          lowMinGasPrice1 = LegacyMinDec lowMinGasPrice (LegacyMinDec maxLoadMinGasPrice minLoadMinGasPrice)
      in (maxShortEMA1, maxLongEMA1, minShortEMA1, minLongEMA1, lowMinGasPrice1, highMinGasPrice1))"

fun edgeLoop :: "FeeTypes \<Rightarrow> ModelParams \<Rightarrow> nat \<Rightarrow> edge \<Rightarrow> edge" where
  "edgeLoop F P 0 e = e"
| "edgeLoop F P (Suc n) e = edgeLoop F P n (edgeStep F P e)"

definition CalculateEdgeGasPriceAfterBlocks ::
    "FeeTypes \<Rightarrow> FeeState \<Rightarrow> uint32 \<Rightarrow> error + (DecCoin \<times> DecCoin)" where
  "CalculateEdgeGasPriceAfterBlocks F s after =
     (let params = feeParams s;
          shortEMABlockLength = ShortEmaBlockLength params
      in if after > shortEMABlockLength
         then Inl (ErrInvalidRequest, ''after blocks must be lower than or equal to the short EMA block length'')
         else
           (let after1 = (if after = 0 then shortEMABlockLength else after);
                shortEMA = shortEMAGas s;
                longEMA = longEMAGas s;
                minGasPrice0 = CalculateNextGasPrice F params shortEMA longEMA;
                (maxShortEMA, maxLongEMA, minShortEMA, minLongEMA, lowMinGasPrice, highMinGasPrice) =
                   edgeLoop F params (unat after1) (shortEMA, longEMA, shortEMA, longEMA, minGasPrice0, minGasPrice0)
            in case minGasPrice s of
                 None \<Rightarrow> Inl (Panic, ''min gas price not set'')
               | Some (denom, price) \<Rightarrow> Inr ((denom, lowMinGasPrice), (denom, highMinGasPrice))))"

text \<open>
  What the spec says the query computes, in its own words: the two extreme load
  trajectories (every block at max gas, every block at zero gas) from the stored EMAs, the
  model price of each trajectory after \<open>1, ..., n\<close> blocks, and the current model price
  as one more candidate.
\<close>

definition emaAfter :: "FeeTypes \<Rightarrow> uint32 \<Rightarrow> int64 \<Rightarrow> nat \<Rightarrow> int64 \<Rightarrow> int64" where
  "emaAfter F len gas k ema = ((\<lambda>e. CalculateEMA F e gas len) ^^ k) ema"

definition trajectoryPrice :: "FeeTypes \<Rightarrow> ModelParams \<Rightarrow> int64 \<Rightarrow> int64 \<Rightarrow> int64 \<Rightarrow> nat \<Rightarrow> LegacyDec" where
  "trajectoryPrice F P gas shortEMA longEMA k =
     CalculateNextGasPrice F P (emaAfter F (ShortEmaBlockLength P) gas k shortEMA)
                               (emaAfter F (LongEmaBlockLength P) gas k longEMA)"

definition edgeCandidates :: "FeeTypes \<Rightarrow> ModelParams \<Rightarrow> int64 \<Rightarrow> int64 \<Rightarrow> nat \<Rightarrow> LegacyDec set" where
  "edgeCandidates F P shortEMA longEMA n =
     insert (CalculateNextGasPrice F P shortEMA longEMA)
       (trajectoryPrice F P (MaxBlockGas P) shortEMA longEMA ` set [1..<Suc n]
        \<union> trajectoryPrice F P 0 shortEMA longEMA ` set [1..<Suc n])"

definition effectiveBlocks :: "ModelParams \<Rightarrow> uint32 \<Rightarrow> nat" where
  "effectiveBlocks P after = (if after = 0 then unat (ShortEmaBlockLength P) else unat after)"

section \<open>Good-till scheduler\<close>


datatype TimeInForce = TIME_IN_FORCE_GTC | TIME_IN_FORCE_IOC | TIME_IN_FORCE_FOK

















section \<open>Notions used in the statements\<close>

text \<open>
  The amounts \<open>GetSpendableBalance\<close> compares: what is not locked by the DEX or by
  vesting, and the frozen amount as \<open>GetFrozenBalance\<close> reports it (nothing for an
  account with admin privileges, the whole balance under a global freeze, the frozen
  balance otherwise); whether a definition with the freezing feature exists for the denom;
  and the spendable amount as the maximum of zero and the minimum of the applicable caps.
\<close>

definition notLockedAmount :: "State \<Rightarrow> AccAddress \<Rightarrow> string \<Rightarrow> int" where
  "notLockedAmount s addr denom =
     bankBalances s addr denom - dexLocked s addr denom - bankLockedCoins s addr denom"

definition frozenAmount :: "Types \<Rightarrow> State \<Rightarrow> AccAddress \<Rightarrow> string \<Rightarrow> int" where
  "frozenAmount T s addr denom =
     (case GetDefinition T s denom of
        Inl err \<Rightarrow>
          (if isGloballyFrozen s denom then bankBalances s addr denom else frozenBalances s addr denom)
      | Inr def \<Rightarrow>
          (if HasAdminPrivileges def addr then 0
           else if isGloballyFrozen s denom then bankBalances s addr denom
           else frozenBalances s addr denom))"

definition freezingApplies :: "Types \<Rightarrow> State \<Rightarrow> string \<Rightarrow> bool" where
  "freezingApplies T s denom =
     (case GetDefinition T s denom of
        Inl err \<Rightarrow> False
      | Inr def \<Rightarrow> IsFeatureEnabled def Feature_freezing)"

definition spendableAmount :: "Types \<Rightarrow> State \<Rightarrow> AccAddress \<Rightarrow> string \<Rightarrow> int" where
  "spendableAmount T s addr denom =
     (if freezingApplies T s denom
      then max 0 (min (notLockedAmount s addr denom)
                      (bankBalances s addr denom - frozenAmount T s addr denom))
      else max 0 (notLockedAmount s addr denom))"

text \<open>
  The checks of \<open>IssueVersioned\<close> that come before the lookup of the denom metadata (the
  error of the first one that fails, and whether all pass), and its issue-fee step, which
  comes before \<open>SetSymbol\<close>.
\<close>

definition validationError :: "Types \<Rightarrow> IssueSettings \<Rightarrow> error option" where
  "validationError T settings =
     (if \<not> ValidateSubunit T (sSubunit settings)
        then Some (ErrInvalidInput, ''provided subunit: '' @ sSubunit settings)
      else if \<not> ValidatePrecision T (sPrecision settings)
        then Some (ErrInvalidInput, ''provided precision'')
      else if \<not> ValidateFeatures T (sFeatures settings)
        then Some (ErrInvalidInput, ''invalid features'')
      else if \<not> ValidateBurnRate T (sBurnRate settings)
        then Some (ErrInvalidInput, ''invalid burn rate'')
      else if \<not> ValidateSendCommissionRate T (sSendCommissionRate settings)
        then Some (ErrInvalidInput, ''invalid send commission rate'')
      else if sInitialAmount settings > MaxMintableAmount T
        then Some (ErrInvalidInput, ''initial amount is greater than maximum allowed'')
      else if \<not> ValidateSymbol T (sSymbol settings)
        then Some (ErrInvalidInput, ''provided symbol: '' @ sSymbol settings)
      else None)"

definition settingsValid :: "Types \<Rightarrow> IssueSettings \<Rightarrow> bool" where
  "settingsValid T settings =
     (ValidateSubunit T (sSubunit settings) \<and> ValidatePrecision T (sPrecision settings)
      \<and> ValidateFeatures T (sFeatures settings) \<and> ValidateBurnRate T (sBurnRate settings)
      \<and> ValidateSendCommissionRate T (sSendCommissionRate settings)
      \<and> \<not> sInitialAmount settings > MaxMintableAmount T
      \<and> ValidateSymbol T (sSymbol settings))"

definition issueFeeStep :: "State \<Rightarrow> IssueSettings \<Rightarrow> error option \<times> State" where
  "issueFeeStep s settings =
     (if 0 < CoinAmount (issueFee s) then burnIssueFee s settings (issueFee s) else (None, s))"

text \<open>
  The prices of the two load trajectories after \<open>1, ..., n\<close> blocks, from separate
  starting points for the two trajectories (the loop's state after some iterations).
\<close>

definition loadPrices ::
    "FeeTypes \<Rightarrow> ModelParams \<Rightarrow> int64 \<Rightarrow> int64 \<Rightarrow> int64 \<Rightarrow> int64 \<Rightarrow> nat \<Rightarrow> LegacyDec set" where
  "loadPrices F P aS aL iS iL n =
     trajectoryPrice F P (MaxBlockGas P) aS aL ` {1..n} \<union> trajectoryPrice F P 0 iS iL ` {1..n}"





section \<open>Example data\<close>

text \<open>
  A token \<open>utkn-alice\<close> issued and administered by \<open>alice\<close>, with freezing, whitelisting
  and smart-contract blocking enabled and a send commission of \<open>0.1\<close>. \<open>bob\<close> holds 60,
  of which 20 are frozen and 10 locked in the DEX; \<open>carol\<close> holds nothing and is
  whitelisted for 50. The issue fee is 10 \<open>ucore\<close>.
\<close>

definition exampleTypes :: Types where
  "exampleTypes =
     \<lparr>MaxMintableAmount = 1000,
      CurrentTokenVersion = 1,
      DeconstructDenom = (\<lambda>denom. if denom = ''utkn-alice'' then Some (''utkn'', ''alice'') else None),
      BuildDenom = (\<lambda>subunit issuer. subunit @ ''-'' @ issuer),
      NormalizeSymbolForKey = (\<lambda>symbol. symbol),
      ValidateSubunit = (\<lambda>subunit. True),
      ValidatePrecision = (\<lambda>precision. True),
      ValidateFeatures = (\<lambda>features. True),
      ValidateBurnRate = (\<lambda>rate. True),
      ValidateSendCommissionRate = (\<lambda>rate. True),
      ValidateSymbol = (\<lambda>symbol. True),
      ValidateDEXSettings = (\<lambda>settings. None),
      ValidateDEXSettingsAccess = (\<lambda>settings def. None),
      AdminOnly = (\<lambda>feature. feature \<noteq> Feature_burning),
      ValidateMetadata = (\<lambda>md. True),
      MarshalInstantiateMsg = (\<lambda>denom msg. Some msg),
      Instantiate2 = (\<lambda>codeId issuer msg label funds hash. Inr ''contract'')\<rparr>"

definition exampleDefinition :: Definition where
  "exampleDefinition =
     \<lparr>Denom = ''utkn-alice'', Issuer = ''alice'',
      Features = [Feature_freezing, Feature_whitelisting, Feature_block_smart_contracts],
      BurnRate = 0, SendCommissionRate = 100000000000000000, Version = 1,
      URI = [], URIHash = [], Admin = ''alice'', ExtensionCWAddress = []\<rparr>"

definition exampleState :: State where
  "exampleState =
     \<lparr>tokens = [(''alice'', ''utkn'') \<mapsto> exampleDefinition],
      symbols = [(''alice'', ''tkn'') \<mapsto> StoreTrue],
      globalFreeze = Map.empty,
      frozenBalances = (\<lambda>addr denom. if addr = ''bob'' \<and> denom = ''utkn-alice'' then 20 else 0),
      whitelistedBalances = (\<lambda>addr denom. if addr = ''carol'' \<and> denom = ''utkn-alice'' then 50 else 0),
      dexLocked = (\<lambda>addr denom. if addr = ''bob'' \<and> denom = ''utkn-alice'' then 10 else 0),
      dexExpectedToReceive = (\<lambda>addr denom. 0),
      dexSettings = Map.empty,
      issueFee = NewCoin ''ucore'' 10,
      bankBalances = (\<lambda>addr denom.
         if addr = ''alice'' \<and> denom = ''utkn-alice'' then 100
         else if addr = ''bob'' \<and> denom = ''utkn-alice'' then 60 else 0),
      bankLockedCoins = (\<lambda>addr denom. 0),
      bankSupply = (\<lambda>denom. if denom = ''utkn-alice'' then 160 else 0),
      denomMetaData = [''utkn-alice'' \<mapsto>
         \<lparr>mdDescription = [], mdDenomUnits = [(''utkn-alice'', 0), (''tkn'', 6)],
          mdBase = ''utkn-alice'', mdDisplay = ''tkn'', mdName = ''tkn'', mdSymbol = ''tkn'',
          mdURI = [], mdURIHash = []\<rparr>],
      bondDenom = ''ucore'',
      smartContracts = {},
      events = []\<rparr>"

definition exampleContext :: Context where
  "exampleContext =
     \<lparr>purpose = PurposeNone, triggeredBySmartContract = False,
      smartContractRecipient = None, appHash = []\<rparr>"

definition exampleSettings :: IssueSettings where
  "exampleSettings =
     \<lparr>sIssuer = ''alice'', sSymbol = ''tkn'', sSubunit = ''unew'', sPrecision = 6,
      sDescription = [], sInitialAmount = 100, sFeatures = [Feature_minting],
      sBurnRate = 0, sSendCommissionRate = 0, sURI = [], sURIHash = [],
      sExtensionSettings = None, sDEXSettings = None\<rparr>"

text \<open>
  A fee model whose EMA is the mean of the previous value and the new one and whose price
  is the short EMA, with a short EMA length of 2 blocks.
\<close>

definition exampleFeeTypes :: FeeTypes where
  "exampleFeeTypes =
     \<lparr>CalculateEMA = (\<lambda>previousEMA newValue numOfBlocks. (previousEMA + newValue) div 2),
      CalculateNextGasPrice = (\<lambda>P shortEMA longEMA. sint shortEMA)\<rparr>"

definition exampleFeeState :: FeeState where
  "exampleFeeState =
     \<lparr>feeParams = \<lparr>ShortEmaBlockLength = 2, LongEmaBlockLength = 5, MaxBlockGas = 100\<rparr>,
      shortEMAGas = 50, longEMAGas = 50, minGasPrice = Some (''ucore'', 50)\<rparr>"












section \<open>Transfer validator: order of the checks, whitelisting, admin exemption\<close>

text \<open>
  Claim C1. \<open>validateCoinSpendable\<close> applies its checks in order and stops at the first
  that decides: a transfer whose purpose is ack or timeout succeeds whatever the
  definition, the sender and the amount are; otherwise, if freezing is enabled, the denom
  is globally frozen and the sender has no admin privileges, it fails with
  \<open>ErrGloballyFrozen\<close>; otherwise a transfer whose purpose is ibc-in succeeds.
\<close>

theorem validateCoinSpendable_check_order:
  "(purpose ctx = PurposeAck \<or> purpose ctx = PurposeTimeout
      \<longrightarrow> validateCoinSpendable T ctx s addr def amount = None)
   \<and> (purpose ctx \<noteq> PurposeAck \<and> purpose ctx \<noteq> PurposeTimeout
        \<and> IsFeatureEnabled def Feature_freezing \<and> isGloballyFrozen s (Denom def)
        \<and> \<not> HasAdminPrivileges def addr
      \<longrightarrow> map_option fst (validateCoinSpendable T ctx s addr def amount) = Some ErrGloballyFrozen)
   \<and> (purpose ctx = PurposeIn
        \<and> \<not> (IsFeatureEnabled def Feature_freezing \<and> isGloballyFrozen s (Denom def)
              \<and> \<not> HasAdminPrivileges def addr)
      \<longrightarrow> validateCoinSpendable T ctx s addr def amount = None)"
  by (simp add: validateCoinSpendable_def IsPurposeAck_def IsPurposeTimeout_def IsPurposeIn_def)

text \<open>
  With \<open>utkn-alice\<close> globally frozen, \<open>bob\<close>'s ack refund passes and his ibc-in transfer
  fails; without the global freeze the ibc-in transfer passes, although more than his
  unfrozen balance is moved.
\<close>

theorem validateCoinSpendable_check_order_witness:
  "validateCoinSpendable exampleTypes (exampleContext\<lparr>purpose := PurposeAck\<rparr>)
      (exampleState\<lparr>globalFreeze := [''utkn-alice'' \<mapsto> StoreTrue]\<rparr>) ''bob'' exampleDefinition 55 = None
   \<and> map_option fst (validateCoinSpendable exampleTypes (exampleContext\<lparr>purpose := PurposeIn\<rparr>)
      (exampleState\<lparr>globalFreeze := [''utkn-alice'' \<mapsto> StoreTrue]\<rparr>) ''bob'' exampleDefinition 55)
       = Some ErrGloballyFrozen
   \<and> validateCoinSpendable exampleTypes (exampleContext\<lparr>purpose := PurposeIn\<rparr>)
      exampleState ''bob'' exampleDefinition 55 = None"
  using
    validateCoinSpendable_check_order [where T = exampleTypes
      and ctx = "exampleContext\<lparr>purpose := PurposeAck\<rparr>"
      and s = "exampleState\<lparr>globalFreeze := [''utkn-alice'' \<mapsto> StoreTrue]\<rparr>"
      and addr = "''bob''" and def = exampleDefinition and amount = 55]
    validateCoinSpendable_check_order [where T = exampleTypes
      and ctx = "exampleContext\<lparr>purpose := PurposeIn\<rparr>"
      and s = "exampleState\<lparr>globalFreeze := [''utkn-alice'' \<mapsto> StoreTrue]\<rparr>"
      and addr = "''bob''" and def = exampleDefinition and amount = 55]
    validateCoinSpendable_check_order [where T = exampleTypes
      and ctx = "exampleContext\<lparr>purpose := PurposeIn\<rparr>"
      and s = exampleState
      and addr = "''bob''" and def = exampleDefinition and amount = 55]
  by (simp add: exampleContext_def exampleState_def exampleDefinition_def IsFeatureEnabled_def
      isGloballyFrozen_def HasAdminPrivileges_def)

text \<open>
  Claim C2, as stated, fails: with whitelisting enabled, a receiver without admin
  privileges and no IBC purpose, staying within the whitelisted limit is not enough for
  \<open>validateCoinReceivable\<close> to succeed. \<open>carol\<close> is whitelisted for 50, holds nothing
  and receives 30, but she is the receiving smart contract of the context and the token
  blocks smart contracts: the transfer fails with \<open>ErrUnauthorized\<close>.
\<close>

theorem validateCoinReceivable_smart_contract_counterexample:
  "IsFeatureEnabled exampleDefinition Feature_whitelisting
   \<and> \<not> HasAdminPrivileges exampleDefinition ''carol''
   \<and> purpose (exampleContext\<lparr>smartContractRecipient := Some ''carol''\<rparr>) = PurposeNone
   \<and> bankBalances exampleState ''carol'' ''utkn-alice''
       + dexExpectedToReceive exampleState ''carol'' ''utkn-alice'' + 30
       \<le> whitelistedBalances exampleState ''carol'' ''utkn-alice''
   \<and> validateCoinReceivable (exampleContext\<lparr>smartContractRecipient := Some ''carol''\<rparr>)
        exampleState ''carol'' exampleDefinition 30
       = Some (ErrUnauthorized, ''transfers to smart contracts are disabled for utkn-alice'')"
  by (simp add: validateCoinReceivable_def validateWhitelistedBalance_def exampleContext_def
      exampleState_def exampleDefinition_def IsFeatureEnabled_def HasAdminPrivileges_def
      IsPurposeOut_def IsPurposeAck_def IsPurposeTimeout_def IsReceivingSmartContract_def
      GetBalance_def GetWhitelistedBalance_def GetDEXExpectedToReceivedBalance_def)

text \<open>
  Claim C2, amended. With whitelisting enabled, a receiver without admin privileges and no
  IBC purpose, \<open>validateCoinReceivable\<close> fails with \<open>ErrWhitelistedLimitExceeded\<close> if and
  only if bank balance + DEX expected-to-receive + amount exceeds the whitelisted limit;
  within the limit it succeeds unless the token blocks smart contracts and the receiver is
  the receiving smart contract of the context, in which case it fails with
  \<open>ErrUnauthorized\<close>.
\<close>

theorem validateCoinReceivable_whitelisted_limit:
  assumes "IsFeatureEnabled def Feature_whitelisting" and "\<not> HasAdminPrivileges def addr"
    and "purpose ctx = PurposeNone"
  shows "(bankBalances s addr (Denom def) + dexExpectedToReceive s addr (Denom def) + amount
            > whitelistedBalances s addr (Denom def)
          \<longleftrightarrow> map_option fst (validateCoinReceivable ctx s addr def amount)
                = Some ErrWhitelistedLimitExceeded)
       \<and> (bankBalances s addr (Denom def) + dexExpectedToReceive s addr (Denom def) + amount
            \<le> whitelistedBalances s addr (Denom def)
          \<longrightarrow> validateCoinReceivable ctx s addr def amount
              = (if IsFeatureEnabled def Feature_block_smart_contracts \<and> IsReceivingSmartContract ctx addr
                 then Some (ErrUnauthorized, ''transfers to smart contracts are disabled for '' @ Denom def)
                 else None))"
  using assms
  by (auto simp add: validateCoinReceivable_def validateWhitelistedBalance_def IsPurposeAck_def
      IsPurposeTimeout_def IsPurposeOut_def GetBalance_def GetWhitelistedBalance_def
      GetDEXExpectedToReceivedBalance_def Let_def)

text \<open>Scenario 6 of the spec: with a limit of 50, receiving 100 is rejected and 30 accepted.\<close>

theorem validateCoinReceivable_whitelisted_limit_witness:
  "map_option fst (validateCoinReceivable exampleContext exampleState ''carol'' exampleDefinition 100)
     = Some ErrWhitelistedLimitExceeded
   \<and> validateCoinReceivable exampleContext exampleState ''carol'' exampleDefinition 30 = None"
  using
    validateCoinReceivable_whitelisted_limit [where ctx = exampleContext and s = exampleState
      and addr = "''carol''" and def = exampleDefinition and amount = 100]
    validateCoinReceivable_whitelisted_limit [where ctx = exampleContext and s = exampleState
      and addr = "''carol''" and def = exampleDefinition and amount = 30]
  by (simp add: exampleContext_def exampleState_def exampleDefinition_def IsFeatureEnabled_def
      HasAdminPrivileges_def IsReceivingSmartContract_def)

text \<open>
  Claim C4. For an actor with admin privileges over the definition and no IBC purpose,
  \<open>validateCoinSpendable\<close> is exactly the check of the funds locked by the DEX and the
  bank (global freeze, frozen balance and the smart-contract block do not count), and
  \<open>validateCoinReceivable\<close> succeeds (whitelisting and the smart-contract block do not
  count).
\<close>

theorem admin_exemption:
  assumes "HasAdminPrivileges def addr" and "purpose ctx = PurposeNone"
  shows "validateCoinSpendable T ctx s addr def amount
           = validateCoinIsNotLockedByDEXAndBank s addr (NewCoin (Denom def) amount)
         \<and> validateCoinReceivable ctx s addr def amount = None"
  using assms
  by (simp add: validateCoinSpendable_def validateCoinReceivable_def IsPurposeAck_def
      IsPurposeTimeout_def IsPurposeIn_def IsPurposeOut_def split: option.splits)

text \<open>
  \<open>alice\<close> administers a token that is globally frozen, whitelisted and closed to smart
  contracts; in a context triggered by a smart contract and marking her as the receiving
  contract she spends 40 of her 100 and receives 40.
\<close>

theorem admin_exemption_witness:
  "validateCoinSpendable exampleTypes
      (exampleContext\<lparr>triggeredBySmartContract := True, smartContractRecipient := Some ''alice''\<rparr>)
      (exampleState\<lparr>globalFreeze := [''utkn-alice'' \<mapsto> StoreTrue]\<rparr>) ''alice'' exampleDefinition 40 = None
   \<and> validateCoinReceivable
      (exampleContext\<lparr>triggeredBySmartContract := True, smartContractRecipient := Some ''alice''\<rparr>)
      (exampleState\<lparr>globalFreeze := [''utkn-alice'' \<mapsto> StoreTrue]\<rparr>) ''alice'' exampleDefinition 40 = None"
  using admin_exemption [where T = exampleTypes
      and ctx = "exampleContext\<lparr>triggeredBySmartContract := True, smartContractRecipient := Some ''alice''\<rparr>"
      and s = "exampleState\<lparr>globalFreeze := [''utkn-alice'' \<mapsto> StoreTrue]\<rparr>"
      and addr = "''alice''" and def = exampleDefinition and amount = 40]
  by (simp add: exampleContext_def exampleState_def exampleDefinition_def HasAdminPrivileges_def
      validateCoinIsNotLockedByDEXAndBank_def GetBalance_def GetDEXLockedBalance_def
      LockedCoinsAmountOf_def)

section \<open>Minting cap\<close>

text \<open>
  Claim C6. \<open>Mint\<close> of more than \<open>MaxMintableAmount\<close> fails with \<open>ErrInvalidInput\<close> and
  leaves the state as it was, whatever the state holds for the denom: the check comes
  before the definition is looked up and before the feature check. \<open>IssueVersioned\<close> with
  an initial amount above \<open>MaxMintableAmount\<close> fails with \<open>ErrInvalidInput\<close> and leaves
  the state as it was; when the validators before the cap check pass, the error is the one
  of the cap check.
\<close>

theorem mint_and_issue_cap:
  "(CoinAmount coin > MaxMintableAmount T
      \<longrightarrow> Mint T ctx s sender recipient coin
          = (Some (ErrInvalidInput, ''minting amount is greater than maximum allowed''), s))
   \<and> (sInitialAmount settings > MaxMintableAmount T
      \<longrightarrow> snd (IssueVersioned T ctx s settings version) = s
        \<and> map_sum fst id (fst (IssueVersioned T ctx s settings version)) = Inl ErrInvalidInput)
   \<and> (sInitialAmount settings > MaxMintableAmount T
        \<and> ValidateSubunit T (sSubunit settings) \<and> ValidatePrecision T (sPrecision settings)
        \<and> ValidateFeatures T (sFeatures settings) \<and> ValidateBurnRate T (sBurnRate settings)
        \<and> ValidateSendCommissionRate T (sSendCommissionRate settings)
      \<longrightarrow> IssueVersioned T ctx s settings version
          = (Inl (ErrInvalidInput, ''initial amount is greater than maximum allowed''), s))"
  by (simp add: Mint_def IssueVersioned_def)

text \<open>
  With a cap of 1000, minting 1001 of a denom that has no definition and issuing with an
  initial amount of 1001 both fail on the cap.
\<close>

theorem mint_and_issue_cap_witness:
  "Mint exampleTypes exampleContext exampleState ''bob'' ''carol'' (NewCoin ''nothing'' 1001)
     = (Some (ErrInvalidInput, ''minting amount is greater than maximum allowed''), exampleState)
   \<and> IssueVersioned exampleTypes exampleContext exampleState (exampleSettings\<lparr>sInitialAmount := 1001\<rparr>) 1
     = (Inl (ErrInvalidInput, ''initial amount is greater than maximum allowed''), exampleState)"
  using mint_and_issue_cap [where T = exampleTypes and ctx = exampleContext and s = exampleState
      and sender = "''bob''" and recipient = "''carol''" and coin = "NewCoin ''nothing'' 1001"
      and settings = "exampleSettings\<lparr>sInitialAmount := 1001\<rparr>" and version = 1]
  by (simp add: exampleTypes_def exampleSettings_def)

section \<open>Clearing the admin\<close>

text \<open>
  Claim C7. For a denom whose stored definition has an admin, \<open>ClearAdmin\<close> called by that
  admin succeeds, and the definition stored afterwards is the old one with the admin empty
  and with the send commission rate zero when the extension feature is not enabled,
  unchanged when it is; called by anyone else it fails with \<open>ErrUnauthorized\<close> and the
  state stays as it was.
\<close>

theorem ClearAdmin_effect:
  assumes "GetDefinition T s denom = Inr def" and "Admin def \<noteq> []"
  shows "(sender = Admin def
            \<longrightarrow> fst (ClearAdmin T s sender denom) = None
              \<and> GetDefinition T (snd (ClearAdmin T s sender denom)) denom
                  = Inr (def\<lparr>Admin := [],
                             SendCommissionRate :=
                               (if IsFeatureEnabled def Feature_extension then SendCommissionRate def else 0)\<rparr>))
       \<and> (sender \<noteq> Admin def
            \<longrightarrow> ClearAdmin T s sender denom
                = (Some (ErrUnauthorized, ''only admin can remove administration of an account''), s))"
  using assms
  by (auto simp add: ClearAdmin_def GetDefinition_def IsAdmin_def SetDefinition_def EmitTypedEvent_def
      IsFeatureEnabled_def Let_def split: option.splits)

text \<open>
  \<open>alice\<close> clears the admin of \<open>utkn-alice\<close> (no extension: the commission of 0.1 becomes
  zero); \<open>bob\<close> is refused. With the extension feature the commission stays.
\<close>

theorem ClearAdmin_effect_witness:
  "fst (ClearAdmin exampleTypes exampleState ''alice'' ''utkn-alice'') = None
   \<and> GetDefinition exampleTypes (snd (ClearAdmin exampleTypes exampleState ''alice'' ''utkn-alice'')) ''utkn-alice''
       = Inr (exampleDefinition\<lparr>Admin := [], SendCommissionRate := 0\<rparr>)
   \<and> ClearAdmin exampleTypes exampleState ''bob'' ''utkn-alice''
       = (Some (ErrUnauthorized, ''only admin can remove administration of an account''), exampleState)
   \<and> GetDefinition exampleTypes
        (snd (ClearAdmin exampleTypes
           (exampleState\<lparr>tokens := [(''alice'', ''utkn'') \<mapsto> exampleDefinition\<lparr>Features := [Feature_extension]\<rparr>]\<rparr>)
           ''alice'' ''utkn-alice'')) ''utkn-alice''
       = Inr (exampleDefinition\<lparr>Features := [Feature_extension], Admin := []\<rparr>)"
  using
    ClearAdmin_effect [where T = exampleTypes and s = exampleState and denom = "''utkn-alice''"
      and def = exampleDefinition and sender = "''alice''"]
    ClearAdmin_effect [where T = exampleTypes and s = exampleState and denom = "''utkn-alice''"
      and def = exampleDefinition and sender = "''bob''"]
    ClearAdmin_effect [where T = exampleTypes
      and s = "exampleState\<lparr>tokens := [(''alice'', ''utkn'') \<mapsto> exampleDefinition\<lparr>Features := [Feature_extension]\<rparr>]\<rparr>"
      and denom = "''utkn-alice''"
      and def = "exampleDefinition\<lparr>Features := [Feature_extension]\<rparr>" and sender = "''alice''"]
  by (simp add: GetDefinition_def exampleTypes_def exampleState_def exampleDefinition_def
      IsFeatureEnabled_def)

section \<open>Spendable balance\<close>

lemma getDefinitionOrNil_cases:
  "getDefinitionOrNil T s denom
     = (case GetDefinition T s denom of Inl err \<Rightarrow> Inr None | Inr def \<Rightarrow> Inr (Some def))"
  by (auto simp add: getDefinitionOrNil_def GetDefinition_def IsOf_def split: option.splits sum.splits)

lemma GetFrozenBalance_amount:
  "GetFrozenBalance T s addr denom = Inr (NewCoin denom (frozenAmount T s addr denom))"
  by (simp add: GetFrozenBalance_def getDefinitionOrNil_cases frozenAmount_def GetBalance_def
      frozenStoreBalance_def Let_def split: sum.splits)

lemma GetSpendableBalance_branches:
  "GetSpendableBalance T s addr denom =
     Inr (NewCoin denom
       (if bankBalances s addr denom = 0 then 0
        else if notLockedAmount s addr denom < 0 then 0
        else if freezingApplies T s denom then
          (if bankBalances s addr denom - frozenAmount T s addr denom < 0 then 0
           else min (notLockedAmount s addr denom) (bankBalances s addr denom - frozenAmount T s addr denom))
        else notLockedAmount s addr denom))"
  by (simp add: GetSpendableBalance_def GetFrozenBalance_amount getDefinitionOrNil_cases
      freezingApplies_def notLockedAmount_def GetBalance_def GetDEXLockedBalance_def
      LockedCoinsAmountOf_def Let_def split: sum.splits)

text \<open>
  Claim C8. \<open>GetSpendableBalance\<close> returns, for every account and denom, a coin of that
  denom whose amount is not negative: zero when the balance less the DEX-locked and the
  vesting-locked amounts is negative, zero when freezing applies and the balance less the
  frozen amount is negative, otherwise the smaller of the two differences, or the
  not-locked difference when freezing does not apply (feature disabled or no definition).
  With the DEX-locked and vesting-locked amounts not negative, as the stores hold them,
  that is the maximum of zero and the minimum of the applicable caps.
\<close>

theorem GetSpendableBalance_nonnegative_caps:
  "(\<exists>c. GetSpendableBalance T s addr denom = Inr c \<and> CoinDenom c = denom \<and> 0 \<le> CoinAmount c)
   \<and> (notLockedAmount s addr denom < 0
      \<longrightarrow> GetSpendableBalance T s addr denom = Inr (NewCoin denom 0))
   \<and> (freezingApplies T s denom \<and> bankBalances s addr denom - frozenAmount T s addr denom < 0
      \<longrightarrow> GetSpendableBalance T s addr denom = Inr (NewCoin denom 0))
   \<and> (0 \<le> dexLocked s addr denom \<and> 0 \<le> bankLockedCoins s addr denom
      \<longrightarrow> GetSpendableBalance T s addr denom = Inr (NewCoin denom (spendableAmount T s addr denom))
        \<and> (freezingApplies T s denom \<and> 0 \<le> notLockedAmount s addr denom
             \<and> 0 \<le> bankBalances s addr denom - frozenAmount T s addr denom
           \<longrightarrow> GetSpendableBalance T s addr denom
               = Inr (NewCoin denom (min (notLockedAmount s addr denom)
                                         (bankBalances s addr denom - frozenAmount T s addr denom))))
        \<and> (\<not> freezingApplies T s denom \<and> 0 \<le> notLockedAmount s addr denom
           \<longrightarrow> GetSpendableBalance T s addr denom = Inr (NewCoin denom (notLockedAmount s addr denom))))"
  by (auto simp add: GetSpendableBalance_branches spendableAmount_def notLockedAmount_def)

text \<open>
  \<open>bob\<close> holds 60 with 10 locked in the DEX and 20 frozen: 40 are spendable. With 70
  locked in the DEX, or with 70 frozen, nothing is.
\<close>

theorem GetSpendableBalance_nonnegative_caps_witness:
  "GetSpendableBalance exampleTypes exampleState ''bob'' ''utkn-alice'' = Inr (NewCoin ''utkn-alice'' 40)
   \<and> GetSpendableBalance exampleTypes (exampleState\<lparr>dexLocked := (\<lambda>addr denom. 70)\<rparr>) ''bob'' ''utkn-alice''
       = Inr (NewCoin ''utkn-alice'' 0)
   \<and> GetSpendableBalance exampleTypes (exampleState\<lparr>frozenBalances := (\<lambda>addr denom. 70)\<rparr>) ''bob'' ''utkn-alice''
       = Inr (NewCoin ''utkn-alice'' 0)"
  using
    GetSpendableBalance_nonnegative_caps [where T = exampleTypes and s = exampleState
      and addr = "''bob''" and denom = "''utkn-alice''"]
    GetSpendableBalance_nonnegative_caps [where T = exampleTypes
      and s = "exampleState\<lparr>dexLocked := (\<lambda>addr denom. 70)\<rparr>"
      and addr = "''bob''" and denom = "''utkn-alice''"]
    GetSpendableBalance_nonnegative_caps [where T = exampleTypes
      and s = "exampleState\<lparr>frozenBalances := (\<lambda>addr denom. 70)\<rparr>"
      and addr = "''bob''" and denom = "''utkn-alice''"]
  by (simp add: spendableAmount_def freezingApplies_def notLockedAmount_def frozenAmount_def
      GetDefinition_def exampleTypes_def exampleState_def exampleDefinition_def IsFeatureEnabled_def
      HasAdminPrivileges_def isGloballyFrozen_def)

section \<open>Global freeze\<close>

lemma GetDefinition_tokens:
  "tokens s1 = tokens s \<Longrightarrow> GetDefinition T s1 denom = GetDefinition T s denom"
  by (auto simp add: GetDefinition_def split: option.splits)

lemma tokens_SetGlobalFreeze: "tokens (SetGlobalFreeze s denom frozen) = tokens s"
  by (simp add: SetGlobalFreeze_def)

lemma SetGlobalFreeze_twice:
  "SetGlobalFreeze (SetGlobalFreeze s denom b) denom frozen = SetGlobalFreeze s denom frozen"
  by (simp add: SetGlobalFreeze_def)

lemma GloballyFreeze_admin:
  assumes "GetDefinition T s denom = Inr def" and "IsFeatureEnabled def Feature_freezing"
    and "IsAdmin def sender"
  shows "GloballyFreeze T s sender denom = (None, SetGlobalFreeze s denom True)"
    and "GloballyUnfreeze T s sender denom = (None, SetGlobalFreeze s denom False)"
  using assms by (simp_all add: GloballyFreeze_def GloballyUnfreeze_def CheckFeatureAllowed_def)

text \<open>
  Claim C10. For a denom whose definition has the freezing feature and a sender who is its
  admin, \<open>GloballyFreeze\<close> succeeds and sets the global freeze, and applying it again to
  the resulting state succeeds and gives the same state; \<open>GloballyUnfreeze\<close> succeeds and
  clears the global freeze, and applying it again gives the same state;
  \<open>GloballyUnfreeze\<close> after \<open>GloballyFreeze\<close> gives the state of \<open>GloballyUnfreeze\<close>
  alone: not frozen.
\<close>

theorem global_freeze_idempotent:
  assumes "GetDefinition T s denom = Inr def" and "IsFeatureEnabled def Feature_freezing"
    and "IsAdmin def sender"
  shows "fst (GloballyFreeze T s sender denom) = None
       \<and> isGloballyFrozen (snd (GloballyFreeze T s sender denom)) denom
       \<and> GloballyFreeze T (snd (GloballyFreeze T s sender denom)) sender denom
           = GloballyFreeze T s sender denom
       \<and> fst (GloballyUnfreeze T s sender denom) = None
       \<and> \<not> isGloballyFrozen (snd (GloballyUnfreeze T s sender denom)) denom
       \<and> GloballyUnfreeze T (snd (GloballyUnfreeze T s sender denom)) sender denom
           = GloballyUnfreeze T s sender denom
       \<and> GloballyUnfreeze T (snd (GloballyFreeze T s sender denom)) sender denom
           = GloballyUnfreeze T s sender denom"
proof -
  have def1: "GetDefinition T (SetGlobalFreeze s denom b) denom = Inr def" for b
    using assms(1) GetDefinition_tokens [OF tokens_SetGlobalFreeze] by simp
  note here = GloballyFreeze_admin [OF assms]
  note after = GloballyFreeze_admin [OF def1 assms(2,3)]
  show ?thesis
    by (simp add: here after SetGlobalFreeze_twice)
       (simp add: SetGlobalFreeze_def isGloballyFrozen_def)
qed

text \<open>
  \<open>alice\<close> freezes \<open>utkn-alice\<close> globally, twice, and unfreezes it: the denom is frozen
  after the first two steps and not frozen at the end, where the state is the initial one.
\<close>

theorem global_freeze_idempotent_witness:
  "isGloballyFrozen (snd (GloballyFreeze exampleTypes exampleState ''alice'' ''utkn-alice'')) ''utkn-alice''
   \<and> GloballyFreeze exampleTypes (snd (GloballyFreeze exampleTypes exampleState ''alice'' ''utkn-alice''))
        ''alice'' ''utkn-alice''
       = GloballyFreeze exampleTypes exampleState ''alice'' ''utkn-alice''
   \<and> \<not> isGloballyFrozen
        (snd (GloballyUnfreeze exampleTypes (snd (GloballyFreeze exampleTypes exampleState ''alice'' ''utkn-alice''))
           ''alice'' ''utkn-alice'')) ''utkn-alice''"
  using global_freeze_idempotent [where T = exampleTypes and s = exampleState
      and denom = "''utkn-alice''" and def = exampleDefinition and sender = "''alice''"]
  by (simp add: GetDefinition_def exampleTypes_def exampleState_def exampleDefinition_def
      IsFeatureEnabled_def IsAdmin_def)

section \<open>Issuing: re-use of a subunit or a symbol\<close>

lemma addBalance_keeps:
  "tokens (addBalance s addr coin) = tokens s" "symbols (addBalance s addr coin) = symbols s"
  by (simp_all add: addBalance_def)

lemma SendCoins_keeps:
  "tokens (snd (SendCoins s a b coin)) = tokens s" "symbols (snd (SendCoins s a b coin)) = symbols s"
  by (simp_all add: SendCoins_def addBalance_keeps)

lemma BurnCoins_keeps:
  "tokens (snd (BurnCoins s a coin)) = tokens s" "symbols (snd (BurnCoins s a coin)) = symbols s"
  by (simp_all add: BurnCoins_def addBalance_keeps)

lemma burn_keeps:
  "tokens (snd (burn s a coin)) = tokens s" "symbols (snd (burn s a coin)) = symbols s"
proof -
  obtain e1 s1 where send: "SendCoins s a ModuleName coin = (e1, s1)" by force
  obtain e2 s2 where burnt: "BurnCoins s1 ModuleName coin = (e2, s2)" by force
  have s1: "tokens s1 = tokens s" "symbols s1 = symbols s"
    using SendCoins_keeps [of s a ModuleName coin] send by simp_all
  have s2: "tokens s2 = tokens s1" "symbols s2 = symbols s1"
    using BurnCoins_keeps [of s1 ModuleName coin] burnt by simp_all
  show "tokens (snd (burn s a coin)) = tokens s" "symbols (snd (burn s a coin)) = symbols s"
    using send burnt s1 s2 by (simp_all add: burn_def split: option.splits)
qed

lemma burnIssueFee_keeps:
  "tokens (snd (burnIssueFee s settings fee)) = tokens s"
  "symbols (snd (burnIssueFee s settings fee)) = symbols s"
  by (simp_all add: burnIssueFee_def burn_keeps split: option.splits)

lemma issueFeeStep_keeps:
  "tokens (snd (issueFeeStep s settings)) = tokens s" "symbols (snd (issueFeeStep s settings)) = symbols s"
  by (simp_all add: issueFeeStep_def burnIssueFee_keeps)

lemma IssueVersioned_registered:
  assumes "denomMetaData s (BuildDenom T (sSubunit settings) (sIssuer settings)) \<noteq> None"
  shows "snd (IssueVersioned T ctx s settings version) = s"
    and "map_sum fst id (fst (IssueVersioned T ctx s settings version)) = Inl ErrInvalidInput"
    and "settingsValid T settings \<Longrightarrow> IssueVersioned T ctx s settings version
           = (Inl (ErrInvalidInput, ''subunit already registered for the address''), s)"
  using assms by (simp_all add: IssueVersioned_def settingsValid_def Let_def)

lemma IssueVersioned_duplicate:
  assumes "isSymbolDuplicated s (NormalizeSymbolForKey T (sSymbol settings)) (sIssuer settings)"
  shows "\<exists>err. fst (IssueVersioned T ctx s settings version) = Inl err"
    and "tokens (snd (IssueVersioned T ctx s settings version)) = tokens s"
    and "settingsValid T settings
         \<Longrightarrow> denomMetaData s (BuildDenom T (sSubunit settings) (sIssuer settings)) = None
         \<Longrightarrow> fst (issueFeeStep s settings) = None
         \<Longrightarrow> fst (IssueVersioned T ctx s settings version)
             = Inl (Wrap (ErrInvalidInput, ''duplicate symbol '' @ NormalizeSymbolForKey T (sSymbol settings))
                         (''provided symbol: '' @ sSymbol settings))"
proof -
  obtain e1 s1 where fee: "issueFeeStep s settings = (e1, s1)" by force
  have s1: "tokens s1 = tokens s" "symbols s1 = symbols s"
    using issueFeeStep_keeps [of s settings] fee by simp_all
  have dup: "isSymbolDuplicated s1 (NormalizeSymbolForKey T (sSymbol settings)) (sIssuer settings)"
    using assms s1 by (simp add: isSymbolDuplicated_def)
  have sym: "SetSymbol T s1 (sSymbol settings) (sIssuer settings)
               = (Some (ErrInvalidInput, ''duplicate symbol '' @ NormalizeSymbolForKey T (sSymbol settings)), s1)"
    using dup by (simp add: SetSymbol_def Let_def)
  have step: "(if 0 < CoinAmount (issueFee s) then burnIssueFee s settings (issueFee s) else (None, s))
                = (e1, s1)"
    using fee by (simp add: issueFeeStep_def)
  show "\<exists>err. fst (IssueVersioned T ctx s settings version) = Inl err"
    by (cases e1) (simp_all add: IssueVersioned_def Let_def step sym)
  show "tokens (snd (IssueVersioned T ctx s settings version)) = tokens s"
    by (cases e1) (simp_all add: IssueVersioned_def Let_def step sym s1)
  show "fst (IssueVersioned T ctx s settings version)
             = Inl (Wrap (ErrInvalidInput, ''duplicate symbol '' @ NormalizeSymbolForKey T (sSymbol settings))
                         (''provided symbol: '' @ sSymbol settings))"
    if "settingsValid T settings"
      "denomMetaData s (BuildDenom T (sSubunit settings) (sIssuer settings)) = None"
      "fst (issueFeeStep s settings) = None"
    using that fee by (simp add: IssueVersioned_def Let_def step sym settingsValid_def)
qed

lemma validationError_code:
  "validationError T settings = Some err \<Longrightarrow> fst err = ErrInvalidInput"
  by (auto simp add: validationError_def split: if_splits)

lemma settingsValid_validationError:
  "settingsValid T settings \<longleftrightarrow> validationError T settings = None"
  by (simp add: settingsValid_def validationError_def)

lemma IssueVersioned_invalid:
  "validationError T settings = Some err \<Longrightarrow> IssueVersioned T ctx s settings version = (Inl err, s)"
  by (auto simp add: validationError_def IssueVersioned_def split: if_splits)

lemma IssueVersioned_steps:
  assumes "validationError T settings = None"
  shows "denomMetaData s (BuildDenom T (sSubunit settings) (sIssuer settings)) \<noteq> None
         \<Longrightarrow> IssueVersioned T ctx s settings version
             = (Inl (ErrInvalidInput, ''subunit already registered for the address''), s)"
    and "denomMetaData s (BuildDenom T (sSubunit settings) (sIssuer settings)) = None
         \<Longrightarrow> isSymbolDuplicated s (NormalizeSymbolForKey T (sSymbol settings)) (sIssuer settings)
         \<Longrightarrow> IssueVersioned T ctx s settings version
             = (case issueFeeStep s settings of
                  (Some err, s1) \<Rightarrow> (Inl err, s1)
                | (None, s1) \<Rightarrow>
                    (Inl (ErrInvalidInput,
                          ''provided symbol: '' @ sSymbol settings @ '': duplicate symbol ''
                            @ NormalizeSymbolForKey T (sSymbol settings)), s1))"
proof -
  have valid: "settingsValid T settings"
    using assms by (simp add: settingsValid_validationError)
  show "IssueVersioned T ctx s settings version
          = (Inl (ErrInvalidInput, ''subunit already registered for the address''), s)"
    if "denomMetaData s (BuildDenom T (sSubunit settings) (sIssuer settings)) \<noteq> None"
    using that valid by (simp add: IssueVersioned_def settingsValid_def Let_def)
  show "IssueVersioned T ctx s settings version
          = (case issueFeeStep s settings of
               (Some err, s1) \<Rightarrow> (Inl err, s1)
             | (None, s1) \<Rightarrow>
                 (Inl (ErrInvalidInput,
                       ''provided symbol: '' @ sSymbol settings @ '': duplicate symbol ''
                         @ NormalizeSymbolForKey T (sSymbol settings)), s1))"
    if fresh: "denomMetaData s (BuildDenom T (sSubunit settings) (sIssuer settings)) = None"
      and dup: "isSymbolDuplicated s (NormalizeSymbolForKey T (sSymbol settings)) (sIssuer settings)"
  proof -
    obtain e1 s1 where fee: "issueFeeStep s settings = (e1, s1)" by force
    have s1: "symbols s1 = symbols s"
      using issueFeeStep_keeps(2) [of s settings] fee by simp
    have sym: "SetSymbol T s1 (sSymbol settings) (sIssuer settings)
                 = (Some (ErrInvalidInput, ''duplicate symbol '' @ NormalizeSymbolForKey T (sSymbol settings)), s1)"
      using dup s1 by (simp add: SetSymbol_def isSymbolDuplicated_def Let_def)
    have step: "(if 0 < CoinAmount (issueFee s) then burnIssueFee s settings (issueFee s) else (None, s))
                  = (e1, s1)"
      using fee by (simp add: issueFeeStep_def)
    show ?thesis
      using valid fresh
      by (cases e1) (simp_all add: IssueVersioned_def settingsValid_def Let_def step sym fee Wrap_def)
  qed
qed

lemma issueFeeStep_cases:
  "\<not> 0 < CoinAmount (issueFee s) \<Longrightarrow> issueFeeStep s settings = (None, s)"
  "0 < CoinAmount (issueFee s) \<Longrightarrow> CoinDenom (issueFee s) \<noteq> bondDenom s
   \<Longrightarrow> issueFeeStep s settings
       = (Some (ErrInvalidCoins, ''not able to burn for issue fee, only the bond denom is accepted''), s)"
  "0 < CoinAmount (issueFee s) \<Longrightarrow> CoinDenom (issueFee s) = bondDenom s
   \<Longrightarrow> notLockedAmount s (sIssuer settings) (CoinDenom (issueFee s)) < CoinAmount (issueFee s)
   \<Longrightarrow> issueFeeStep s settings
       = (Some (ErrInsufficientFunds,
                ''out of funds to pay for issue fee: coin is not available, locked by DEX or bank''), s)"
  "0 < CoinAmount (issueFee s) \<Longrightarrow> CoinDenom (issueFee s) = bondDenom s
   \<Longrightarrow> \<not> notLockedAmount s (sIssuer settings) (CoinDenom (issueFee s)) < CoinAmount (issueFee s)
   \<Longrightarrow> issueFeeStep s settings = burn s (sIssuer settings) (issueFee s)"
  by (simp_all add: issueFeeStep_def burnIssueFee_def checkIssueFeeIsLimitedToCore_def
      validateCoinIsNotLockedByDEXAndBank_def notLockedAmount_def GetBalance_def
      GetDEXLockedBalance_def LockedCoinsAmountOf_def Wrap_def Let_def)

text \<open>
  Claim C9, as stated, fails: issuing a token whose symbol the issuer has already stored
  does not always fail with \<open>ErrInvalidInput\<close>. The issue fee is burnt before the symbol
  is looked up; \<open>alice\<close>, who holds no \<open>ucore\<close> for the fee of 10, issues valid settings
  with a new subunit and her stored symbol \<open>tkn\<close>, and the call fails with
  \<open>ErrInsufficientFunds\<close>.
\<close>

theorem Issue_duplicate_symbol_unpaid_fee_counterexample:
  "settingsValid exampleTypes exampleSettings
   \<and> denomMetaData exampleState (BuildDenom exampleTypes (sSubunit exampleSettings) (sIssuer exampleSettings)) = None
   \<and> isSymbolDuplicated exampleState (NormalizeSymbolForKey exampleTypes (sSymbol exampleSettings))
        (sIssuer exampleSettings)
   \<and> fst (IssueVersioned exampleTypes exampleContext exampleState exampleSettings 1)
       = Inl (ErrInsufficientFunds,
              ''out of funds to pay for issue fee: coin is not available, locked by DEX or bank'')"
  by (simp add: settingsValid_def isSymbolDuplicated_def IssueVersioned_def burnIssueFee_def
      checkIssueFeeIsLimitedToCore_def validateCoinIsNotLockedByDEXAndBank_def GetBalance_def
      GetDEXLockedBalance_def LockedCoinsAmountOf_def Wrap_def exampleTypes_def exampleState_def
      exampleSettings_def)

text \<open>
  Claim C9, amended. Issuing a token whose subunit builds a denom that already has denom
  metadata fails with \<open>ErrInvalidInput\<close> and leaves the state as it was: with the error of
  the first validation that fails, or with "subunit already registered" when all pass.
  Issuing a token whose normalized symbol is already stored for the issuer fails and stores
  no definition: with the error of the first validation that fails (\<open>ErrInvalidInput\<close>),
  else with "subunit already registered" when the subunit is taken, else with the error of
  the issue-fee step when that fails (\<open>ErrInvalidCoins\<close> for a fee that is not in the bond
  denom, \<open>ErrInsufficientFunds\<close> when the issuer's unlocked balance is below the fee, the
  error of the burn otherwise), else with \<open>ErrInvalidInput\<close>, "duplicate symbol".
\<close>

theorem Issue_rejects_reuse:
  "(settingsValid T settings \<longleftrightarrow> validationError T settings = None)
   \<and> (\<forall>err. validationError T settings = Some err \<longrightarrow> fst err = ErrInvalidInput)
   \<and> (denomMetaData s (BuildDenom T (sSubunit settings) (sIssuer settings)) \<noteq> None
      \<longrightarrow> IssueVersioned T ctx s settings version
          = (case validationError T settings of
               Some err \<Rightarrow> (Inl err, s)
             | None \<Rightarrow> (Inl (ErrInvalidInput, ''subunit already registered for the address''), s))
        \<and> snd (IssueVersioned T ctx s settings version) = s
        \<and> map_sum fst id (fst (IssueVersioned T ctx s settings version)) = Inl ErrInvalidInput
        \<and> (settingsValid T settings
           \<longrightarrow> fst (IssueVersioned T ctx s settings version)
               = Inl (ErrInvalidInput, ''subunit already registered for the address'')))
   \<and> (isSymbolDuplicated s (NormalizeSymbolForKey T (sSymbol settings)) (sIssuer settings)
      \<longrightarrow> IssueVersioned T ctx s settings version
          = (case validationError T settings of
               Some err \<Rightarrow> (Inl err, s)
             | None \<Rightarrow>
                 (if denomMetaData s (BuildDenom T (sSubunit settings) (sIssuer settings)) \<noteq> None
                  then (Inl (ErrInvalidInput, ''subunit already registered for the address''), s)
                  else
                    (case issueFeeStep s settings of
                       (Some err, s1) \<Rightarrow> (Inl err, s1)
                     | (None, s1) \<Rightarrow>
                         (Inl (ErrInvalidInput,
                               ''provided symbol: '' @ sSymbol settings @ '': duplicate symbol ''
                                 @ NormalizeSymbolForKey T (sSymbol settings)), s1))))
        \<and> (\<exists>err. fst (IssueVersioned T ctx s settings version) = Inl err)
        \<and> tokens (snd (IssueVersioned T ctx s settings version)) = tokens s
        \<and> (settingsValid T settings
             \<and> denomMetaData s (BuildDenom T (sSubunit settings) (sIssuer settings)) = None
             \<and> fst (issueFeeStep s settings) = None
           \<longrightarrow> fst (IssueVersioned T ctx s settings version)
               = Inl (ErrInvalidInput,
                      ''provided symbol: '' @ sSymbol settings @ '': duplicate symbol ''
                        @ NormalizeSymbolForKey T (sSymbol settings))))
   \<and> (\<not> 0 < CoinAmount (issueFee s) \<longrightarrow> issueFeeStep s settings = (None, s))
   \<and> (0 < CoinAmount (issueFee s) \<and> CoinDenom (issueFee s) \<noteq> bondDenom s
      \<longrightarrow> issueFeeStep s settings
          = (Some (ErrInvalidCoins, ''not able to burn for issue fee, only the bond denom is accepted''), s))
   \<and> (0 < CoinAmount (issueFee s) \<and> CoinDenom (issueFee s) = bondDenom s
        \<and> notLockedAmount s (sIssuer settings) (CoinDenom (issueFee s)) < CoinAmount (issueFee s)
      \<longrightarrow> issueFeeStep s settings
          = (Some (ErrInsufficientFunds,
                   ''out of funds to pay for issue fee: coin is not available, locked by DEX or bank''), s))
   \<and> (0 < CoinAmount (issueFee s) \<and> CoinDenom (issueFee s) = bondDenom s
        \<and> \<not> notLockedAmount s (sIssuer settings) (CoinDenom (issueFee s)) < CoinAmount (issueFee s)
      \<longrightarrow> issueFeeStep s settings = burn s (sIssuer settings) (issueFee s))"
proof -
  have registered:
    "IssueVersioned T ctx s settings version
       = (case validationError T settings of
            Some err \<Rightarrow> (Inl err, s)
          | None \<Rightarrow> (Inl (ErrInvalidInput, ''subunit already registered for the address''), s))"
    if "denomMetaData s (BuildDenom T (sSubunit settings) (sIssuer settings)) \<noteq> None"
    using that IssueVersioned_invalid [of T settings _ ctx s version]
      IssueVersioned_steps(1) [of T settings s ctx version]
    by (cases "validationError T settings") simp_all
  have duplicate:
    "IssueVersioned T ctx s settings version
       = (case validationError T settings of
            Some err \<Rightarrow> (Inl err, s)
          | None \<Rightarrow>
              (if denomMetaData s (BuildDenom T (sSubunit settings) (sIssuer settings)) \<noteq> None
               then (Inl (ErrInvalidInput, ''subunit already registered for the address''), s)
               else
                 (case issueFeeStep s settings of
                    (Some err, s1) \<Rightarrow> (Inl err, s1)
                  | (None, s1) \<Rightarrow>
                      (Inl (ErrInvalidInput,
                            ''provided symbol: '' @ sSymbol settings @ '': duplicate symbol ''
                              @ NormalizeSymbolForKey T (sSymbol settings)), s1))))"
    if "isSymbolDuplicated s (NormalizeSymbolForKey T (sSymbol settings)) (sIssuer settings)"
  proof (cases "validationError T settings")
    case None
    show ?thesis
    proof (cases "denomMetaData s (BuildDenom T (sSubunit settings) (sIssuer settings)) = None")
      case True
      then show ?thesis
        using None IssueVersioned_steps(2) [OF None True that, of ctx version] by simp
    next
      case False
      then show ?thesis
        using None IssueVersioned_steps(1) [OF None False, of ctx version] by simp
    qed
  next
    case (Some err)
    then show ?thesis
      using IssueVersioned_invalid [OF Some, of ctx s version] by simp
  qed
  note before = IssueVersioned_registered [of s T settings ctx version]
    IssueVersioned_duplicate [of s T settings ctx version]
  have old1: "denomMetaData s (BuildDenom T (sSubunit settings) (sIssuer settings)) \<noteq> None
      \<longrightarrow> snd (IssueVersioned T ctx s settings version) = s
        \<and> map_sum fst id (fst (IssueVersioned T ctx s settings version)) = Inl ErrInvalidInput
        \<and> (settingsValid T settings
           \<longrightarrow> fst (IssueVersioned T ctx s settings version)
               = Inl (ErrInvalidInput, ''subunit already registered for the address''))"
    using before by simp
  have old2: "isSymbolDuplicated s (NormalizeSymbolForKey T (sSymbol settings)) (sIssuer settings)
      \<longrightarrow> (\<exists>err. fst (IssueVersioned T ctx s settings version) = Inl err)
        \<and> tokens (snd (IssueVersioned T ctx s settings version)) = tokens s
        \<and> (settingsValid T settings
             \<and> denomMetaData s (BuildDenom T (sSubunit settings) (sIssuer settings)) = None
             \<and> fst (issueFeeStep s settings) = None
           \<longrightarrow> fst (IssueVersioned T ctx s settings version)
               = Inl (ErrInvalidInput,
                      ''provided symbol: '' @ sSymbol settings @ '': duplicate symbol ''
                        @ NormalizeSymbolForKey T (sSymbol settings)))"
    using before by (simp add: Wrap_def)
  show ?thesis
    using settingsValid_validationError [of T settings] validationError_code [of T settings]
      registered duplicate old1 old2 issueFeeStep_cases [of s settings]
    by blast
qed

text \<open>
  \<open>alice\<close> issues the subunit \<open>utkn\<close> again: rejected as registered. Holding 10 \<open>ucore\<close>
  for the fee, she issues a new subunit under her stored symbol \<open>tkn\<close>: rejected as a
  duplicate symbol, and the registry of definitions is as before. Holding no \<open>ucore\<close> she
  is rejected for the fee, with the state as it was.
\<close>

theorem Issue_rejects_reuse_witness:
  "IssueVersioned exampleTypes exampleContext exampleState (exampleSettings\<lparr>sSubunit := ''utkn''\<rparr>) 1
     = (Inl (ErrInvalidInput, ''subunit already registered for the address''), exampleState)
   \<and> fst (IssueVersioned exampleTypes exampleContext
            (exampleState\<lparr>bankBalances := (\<lambda>addr denom. 10)\<rparr>) exampleSettings 1)
       = Inl (ErrInvalidInput, ''provided symbol: tkn: duplicate symbol tkn'')
   \<and> tokens (snd (IssueVersioned exampleTypes exampleContext
            (exampleState\<lparr>bankBalances := (\<lambda>addr denom. 10)\<rparr>) exampleSettings 1))
       = tokens exampleState
   \<and> IssueVersioned exampleTypes exampleContext exampleState exampleSettings 1
       = (Inl (ErrInsufficientFunds,
               ''out of funds to pay for issue fee: coin is not available, locked by DEX or bank''),
          exampleState)"
proof -
  have valid: "validationError exampleTypes (exampleSettings\<lparr>sSubunit := ''utkn''\<rparr>) = None"
    "validationError exampleTypes exampleSettings = None"
    by (simp_all add: validationError_def exampleTypes_def exampleSettings_def)
  have valid1: "settingsValid exampleTypes exampleSettings"
    by (simp add: settingsValid_def exampleTypes_def exampleSettings_def)
  have registered: "denomMetaData exampleState
      (BuildDenom exampleTypes (sSubunit (exampleSettings\<lparr>sSubunit := ''utkn''\<rparr>))
         (sIssuer (exampleSettings\<lparr>sSubunit := ''utkn''\<rparr>))) \<noteq> None"
    by (simp add: exampleTypes_def exampleState_def exampleSettings_def)
  from Issue_rejects_reuse [where T = exampleTypes and ctx = exampleContext and s = exampleState
      and settings = "exampleSettings\<lparr>sSubunit := ''utkn''\<rparr>" and version = 1] registered
  have one: "IssueVersioned exampleTypes exampleContext exampleState (exampleSettings\<lparr>sSubunit := ''utkn''\<rparr>) 1
     = (Inl (ErrInvalidInput, ''subunit already registered for the address''), exampleState)"
    unfolding valid by simp
  let ?paid = "exampleState\<lparr>bankBalances := (\<lambda>addr denom. 10)\<rparr>"
  have dup: "isSymbolDuplicated s (NormalizeSymbolForKey exampleTypes (sSymbol exampleSettings))
               (sIssuer exampleSettings)"
    if "symbols s = symbols exampleState" for s
    using that by (simp add: isSymbolDuplicated_def exampleTypes_def exampleState_def exampleSettings_def)
  have fresh: "denomMetaData s (BuildDenom exampleTypes (sSubunit exampleSettings) (sIssuer exampleSettings)) = None"
    if "denomMetaData s = denomMetaData exampleState" for s
    using that by (simp add: exampleTypes_def exampleState_def exampleSettings_def)
  have fee: "fst (issueFeeStep ?paid exampleSettings) = None"
    by (simp add: issueFeeStep_def burnIssueFee_def checkIssueFeeIsLimitedToCore_def
        validateCoinIsNotLockedByDEXAndBank_def GetBalance_def GetDEXLockedBalance_def
        LockedCoinsAmountOf_def burn_def SendCoins_def BurnCoins_def addBalance_def ModuleName_def
        exampleState_def exampleSettings_def)
  have dup2: "isSymbolDuplicated ?paid (NormalizeSymbolForKey exampleTypes (sSymbol exampleSettings))
                (sIssuer exampleSettings)"
    using dup [of ?paid] by simp
  have fresh2: "denomMetaData ?paid
                  (BuildDenom exampleTypes (sSubunit exampleSettings) (sIssuer exampleSettings)) = None"
    using fresh [of ?paid] by simp
  note paid = Issue_rejects_reuse [where T = exampleTypes and ctx = exampleContext and s = ?paid
      and settings = exampleSettings and version = 1]
  have msg: "''provided symbol: '' @ sSymbol exampleSettings @ '': duplicate symbol ''
               @ NormalizeSymbolForKey exampleTypes (sSymbol exampleSettings)
             = ''provided symbol: tkn: duplicate symbol tkn''"
    by (simp add: exampleTypes_def exampleSettings_def)
  have "fst (IssueVersioned exampleTypes exampleContext ?paid exampleSettings 1)
       = Inl (ErrInvalidInput,
              ''provided symbol: '' @ sSymbol exampleSettings @ '': duplicate symbol ''
                @ NormalizeSymbolForKey exampleTypes (sSymbol exampleSettings))"
    using paid dup2 fresh2 fee valid1 by blast
  then have two: "fst (IssueVersioned exampleTypes exampleContext ?paid exampleSettings 1)
       = Inl (ErrInvalidInput, ''provided symbol: tkn: duplicate symbol tkn'')"
    unfolding msg .
  have "tokens (snd (IssueVersioned exampleTypes exampleContext ?paid exampleSettings 1)) = tokens ?paid"
    using paid dup2 by blast
  then have three: "tokens (snd (IssueVersioned exampleTypes exampleContext ?paid exampleSettings 1))
       = tokens exampleState"
    by simp
  have unpaid: "0 < CoinAmount (issueFee exampleState) \<and> CoinDenom (issueFee exampleState) = bondDenom exampleState
        \<and> notLockedAmount exampleState (sIssuer exampleSettings) (CoinDenom (issueFee exampleState))
            < CoinAmount (issueFee exampleState)"
    by (simp add: notLockedAmount_def exampleState_def exampleSettings_def)
  note owing = Issue_rejects_reuse [where T = exampleTypes and ctx = exampleContext and s = exampleState
      and settings = exampleSettings and version = 1]
  have fee3: "issueFeeStep exampleState exampleSettings
       = (Some (ErrInsufficientFunds,
                ''out of funds to pay for issue fee: coin is not available, locked by DEX or bank''),
          exampleState)"
    using owing unpaid by blast
  have fresh3: "denomMetaData exampleState
                  (BuildDenom exampleTypes (sSubunit exampleSettings) (sIssuer exampleSettings)) = None"
    using fresh [OF refl] .
  have "IssueVersioned exampleTypes exampleContext exampleState exampleSettings 1
          = (case validationError exampleTypes exampleSettings of
               Some err \<Rightarrow> (Inl err, exampleState)
             | None \<Rightarrow>
                 (if denomMetaData exampleState
                       (BuildDenom exampleTypes (sSubunit exampleSettings) (sIssuer exampleSettings)) \<noteq> None
                  then (Inl (ErrInvalidInput, ''subunit already registered for the address''), exampleState)
                  else
                    (case issueFeeStep exampleState exampleSettings of
                       (Some err, s1) \<Rightarrow> (Inl err, s1)
                     | (None, s1) \<Rightarrow>
                         (Inl (ErrInvalidInput,
                               ''provided symbol: '' @ sSymbol exampleSettings @ '': duplicate symbol ''
                                 @ NormalizeSymbolForKey exampleTypes (sSymbol exampleSettings)), s1))))"
    using owing dup [OF refl] by blast
  then have four: "IssueVersioned exampleTypes exampleContext exampleState exampleSettings 1
       = (Inl (ErrInsufficientFunds,
               ''out of funds to pay for issue fee: coin is not available, locked by DEX or bank''),
          exampleState)"
    unfolding valid(2) fresh3 fee3 by simp
  show ?thesis
    by (intro conjI one two three four)
qed

section \<open>Fee model: edge gas prices\<close>

lemma emaAfter_shift:
  "emaAfter F len g k (CalculateEMA F a g len) = emaAfter F len g (Suc k) a"
  by (induction k) (simp_all add: emaAfter_def)

lemma trajectoryPrice_shift:
  "trajectoryPrice F P g (CalculateEMA F a g (ShortEmaBlockLength P))
                         (CalculateEMA F b g (LongEmaBlockLength P)) k
   = trajectoryPrice F P g a b (Suc k)"
  by (simp only: trajectoryPrice_def emaAfter_shift)

lemma trajectoryPrice_one:
  "trajectoryPrice F P g a b (Suc 0)
   = CalculateNextGasPrice F P (CalculateEMA F a g (ShortEmaBlockLength P))
                               (CalculateEMA F b g (LongEmaBlockLength P))"
  by (simp add: trajectoryPrice_def emaAfter_def)

lemma image_upto_Suc:
  "f ` {1..Suc n} = insert (f (Suc 0)) ((\<lambda>k. f (Suc k)) ` {1..n})"
proof -
  have a: "{1..Suc n} = insert (Suc 0) {Suc (Suc 0)..Suc n}" by auto
  have b: "{Suc (Suc 0)..Suc n} = Suc ` {1..n}" by (simp only: image_Suc_atLeastAtMost One_nat_def)
  show ?thesis by (simp only: a b image_insert image_image)
qed

lemma loadPrices_Suc:
  "loadPrices F P aS aL iS iL (Suc n) =
     insert (CalculateNextGasPrice F P (CalculateEMA F aS (MaxBlockGas P) (ShortEmaBlockLength P))
                                       (CalculateEMA F aL (MaxBlockGas P) (LongEmaBlockLength P)))
       (insert (CalculateNextGasPrice F P (CalculateEMA F iS 0 (ShortEmaBlockLength P))
                                          (CalculateEMA F iL 0 (LongEmaBlockLength P)))
          (loadPrices F P (CalculateEMA F aS (MaxBlockGas P) (ShortEmaBlockLength P))
                          (CalculateEMA F aL (MaxBlockGas P) (LongEmaBlockLength P))
                          (CalculateEMA F iS 0 (ShortEmaBlockLength P))
                          (CalculateEMA F iL 0 (LongEmaBlockLength P)) n))"
  unfolding loadPrices_def image_upto_Suc [of _ n] trajectoryPrice_one trajectoryPrice_shift
  by auto

text \<open>
  The loop invariant: the low price is the least and the high price the greatest among the
  starting price and the prices of both trajectories met so far.
\<close>

lemma edgeLoop_bounds:
  "edgeLoop F P n (aS, aL, iS, iL, lo, hi) = (aS1, aL1, iS1, iL1, lo1, hi1)
   \<Longrightarrow> lo1 \<in> insert lo (loadPrices F P aS aL iS iL n)
     \<and> (\<forall>c \<in> insert lo (loadPrices F P aS aL iS iL n). lo1 \<le> c)
     \<and> hi1 \<in> insert hi (loadPrices F P aS aL iS iL n)
     \<and> (\<forall>c \<in> insert hi (loadPrices F P aS aL iS iL n). c \<le> hi1)"
proof (induction n arbitrary: aS aL iS iL lo hi)
  case 0
  then show ?case by (simp add: loadPrices_def)
next
  case (Suc n)
  let ?aS = "CalculateEMA F aS (MaxBlockGas P) (ShortEmaBlockLength P)"
  let ?aL = "CalculateEMA F aL (MaxBlockGas P) (LongEmaBlockLength P)"
  let ?iS = "CalculateEMA F iS 0 (ShortEmaBlockLength P)"
  let ?iL = "CalculateEMA F iL 0 (LongEmaBlockLength P)"
  let ?pa = "CalculateNextGasPrice F P ?aS ?aL"
  let ?pi = "CalculateNextGasPrice F P ?iS ?iL"
  let ?lo = "LegacyMinDec lo (LegacyMinDec ?pa ?pi)"
  let ?hi = "LegacyMaxDec hi (LegacyMaxDec ?pa ?pi)"
  have "edgeLoop F P n (?aS, ?aL, ?iS, ?iL, ?lo, ?hi) = (aS1, aL1, iS1, iL1, lo1, hi1)"
    using Suc.prems by (simp add: Let_def)
  from Suc.IH [OF this]
  have ih: "lo1 \<in> insert ?lo (loadPrices F P ?aS ?aL ?iS ?iL n)"
    "\<forall>c \<in> insert ?lo (loadPrices F P ?aS ?aL ?iS ?iL n). lo1 \<le> c"
    "hi1 \<in> insert ?hi (loadPrices F P ?aS ?aL ?iS ?iL n)"
    "\<forall>c \<in> insert ?hi (loadPrices F P ?aS ?aL ?iS ?iL n). c \<le> hi1"
    by blast+
  have lo: "?lo \<in> {lo, ?pa, ?pi}" "?lo \<le> lo" "?lo \<le> ?pa" "?lo \<le> ?pi"
    by (simp_all add: LegacyMinDec_def)
  have hi: "?hi \<in> {hi, ?pa, ?pi}" "hi \<le> ?hi" "?pa \<le> ?hi" "?pi \<le> ?hi"
    by (simp_all add: LegacyMaxDec_def)
  have lo1: "lo1 \<le> ?lo" "?hi \<le> hi1" using ih by simp_all
  show ?case
    unfolding loadPrices_Suc
    using ih lo hi lo1 by (auto intro: order_trans)
qed

lemma edgeCandidates_loadPrices:
  "edgeCandidates F P a b n = insert (CalculateNextGasPrice F P a b) (loadPrices F P a b a b n)"
  by (simp only: edgeCandidates_def loadPrices_def set_upt atLeastLessThanSuc_atLeastAtMost)

lemma finite_edgeCandidates: "finite (edgeCandidates F P a b n)"
  by (simp add: edgeCandidates_def)

text \<open>
  Claim C5. With the minimum gas price stored, \<open>CalculateEdgeGasPriceAfterBlocks\<close> returns
  an error if and only if \<open>after\<close> exceeds the short EMA block length; otherwise it
  returns the pair of the least and the greatest price among the current model price and
  the model prices along the two extreme load trajectories (every block at max gas, every
  block at zero gas) over the effective number of blocks (\<open>after\<close>, or the short EMA block
  length when \<open>after\<close> is zero), in the denom of the stored price, and the low price is
  at most the high one.
\<close>

theorem CalculateEdgeGasPriceAfterBlocks_edges:
  assumes "minGasPrice s = Some (denom, price)"
  shows "(after > ShortEmaBlockLength (feeParams s)
            \<longleftrightarrow> (\<exists>err. CalculateEdgeGasPriceAfterBlocks F s after = Inl err))
       \<and> (\<not> after > ShortEmaBlockLength (feeParams s) \<longrightarrow>
            (let C = edgeCandidates F (feeParams s) (shortEMAGas s) (longEMAGas s)
                       (effectiveBlocks (feeParams s) after)
             in CalculateEdgeGasPriceAfterBlocks F s after = Inr ((denom, Min C), (denom, Max C))
                \<and> Min C \<le> Max C))"
proof -
  let ?P = "feeParams s"
  let ?n = "effectiveBlocks ?P after"
  let ?p0 = "CalculateNextGasPrice F ?P (shortEMAGas s) (longEMAGas s)"
  let ?C = "edgeCandidates F ?P (shortEMAGas s) (longEMAGas s) ?n"
  obtain aS1 aL1 iS1 iL1 lo1 hi1 where loop:
    "edgeLoop F ?P ?n (shortEMAGas s, longEMAGas s, shortEMAGas s, longEMAGas s, ?p0, ?p0)
       = (aS1, aL1, iS1, iL1, lo1, hi1)"
    by (metis prod_cases3)
  from edgeLoop_bounds [OF loop]
  have b: "lo1 \<in> ?C" "\<forall>c \<in> ?C. lo1 \<le> c" "hi1 \<in> ?C" "\<forall>c \<in> ?C. c \<le> hi1"
    by (simp_all add: edgeCandidates_loadPrices)
  have fin: "finite ?C" by (rule finite_edgeCandidates)
  have lo: "Min ?C = lo1" using b fin by (intro Min_eqI) auto
  have hi: "Max ?C = hi1" using b fin by (intro Max_eqI) auto
  have le: "lo1 \<le> hi1" using b by blast
  have ok: "\<not> after > ShortEmaBlockLength ?P \<Longrightarrow>
             CalculateEdgeGasPriceAfterBlocks F s after = Inr ((denom, lo1), (denom, hi1))"
    using loop assms
    by (simp add: CalculateEdgeGasPriceAfterBlocks_def Let_def effectiveBlocks_def split: if_splits)
  have err: "after > ShortEmaBlockLength ?P \<Longrightarrow>
             \<exists>err. CalculateEdgeGasPriceAfterBlocks F s after = Inl err"
    by (simp add: CalculateEdgeGasPriceAfterBlocks_def Let_def)
  show ?thesis
  proof (cases "after > ShortEmaBlockLength ?P")
    case True
    then show ?thesis using err by simp
  next
    case False
    then show ?thesis using ok lo hi le by (simp add: Let_def)
  qed
qed

text \<open>
  From EMAs of 50 and a maximum block gas of 100, one block ahead the price lies between
  25 and 75; three blocks ahead is more than the short EMA length of 2 and is rejected.
\<close>

theorem CalculateEdgeGasPriceAfterBlocks_edges_witness:
  "CalculateEdgeGasPriceAfterBlocks exampleFeeTypes exampleFeeState 1 = Inr ((''ucore'', 25), (''ucore'', 75))
   \<and> (\<exists>err. CalculateEdgeGasPriceAfterBlocks exampleFeeTypes exampleFeeState 3 = Inl err)"
proof -
  have stored: "minGasPrice exampleFeeState = Some (''ucore'', 50)"
    by (simp add: exampleFeeState_def)
  have cands: "edgeCandidates exampleFeeTypes (feeParams exampleFeeState) (shortEMAGas exampleFeeState)
                 (longEMAGas exampleFeeState) (effectiveBlocks (feeParams exampleFeeState) 1) = {50, 25, 75}"
    by (simp add: edgeCandidates_def effectiveBlocks_def trajectoryPrice_def emaAfter_def
        exampleFeeTypes_def exampleFeeState_def)
  have within: "\<not> (1 :: uint32) > ShortEmaBlockLength (feeParams exampleFeeState)"
    and beyond: "(3 :: uint32) > ShortEmaBlockLength (feeParams exampleFeeState)"
    by (simp_all add: exampleFeeState_def)
  have edges: "Min {50, 25, 75 :: int} = 25" "Max {50, 25, 75 :: int} = 75"
    by simp_all
  from CalculateEdgeGasPriceAfterBlocks_edges [OF stored, of 1 exampleFeeTypes] within
  have one: "CalculateEdgeGasPriceAfterBlocks exampleFeeTypes exampleFeeState 1
               = Inr ((''ucore'', 25), (''ucore'', 75))"
    unfolding cands Let_def edges by blast
  from CalculateEdgeGasPriceAfterBlocks_edges [OF stored, of 3 exampleFeeTypes] beyond
  have three: "\<exists>err. CalculateEdgeGasPriceAfterBlocks exampleFeeTypes exampleFeeState 3 = Inl err"
    by blast
  from one three show ?thesis by (rule conjI)
qed

section \<open>Good-till scheduler: expiry by height\<close>














lemma filter_none:
  "find (\<lambda>x. f x = q) xs = None \<Longrightarrow> filter (\<lambda>x. P x \<and> f x = q) xs = []"
  by (auto simp add: find_None_iff filter_empty_conv)






















end
